theory Spec2Isabelle
  imports Complex_Main
begin

section \<open>Console effects of the sample scripts\<close>

text \<open>
  The repository holds three Python scripts (\<^verbatim>\<open>demo_output.py\<close>, \<^verbatim>\<open>example_task.py\<close>,
  \<^verbatim>\<open>test_colors.py\<close>) whose whole behaviour is a sequence of console effects. A run is
  modelled by the list of effects it performs, oldest first: a \<^verbatim>\<open>print\<close> is one
  \<open>Write\<close> of the text and its line feed to a stream, \<^verbatim>\<open>flush()\<close> is a \<open>Flush\<close>,
  \<^verbatim>\<open>time.sleep(d)\<close> is a \<open>Sleep\<close>. Text is a byte string (UTF-8), seconds are exact
  rationals (Python computes them in binary floating point; the values the scripts
  compare and format are far from every rounding boundary, see \<open>fmt_1f\<close> and the
  warning lines of the task simulator below).

  Python raises where the environment makes it: Ctrl+C raises \<^verbatim>\<open>KeyboardInterrupt\<close>
  between two operations, a closed pipe makes \<^verbatim>\<open>print\<close> raise an \<^verbatim>\<open>OSError\<close>. The
  environment therefore carries a fault oracle: the \<open>k\<close>-th primitive operation of the
  run either completes or raises the exception \<open>fault e k\<close>. A raise is recorded in the
  trace as \<open>Raised\<close>, so that a trace shows where control left the straight line.
\<close>

datatype stream = Stdout | Stderr

datatype exc = KeyboardInterrupt | Exception string

datatype event = Write stream string | Flush stream | Sleep rat | Raised exc

record datetime =
  year :: nat
  month :: nat
  day :: nat
  hour :: nat
  minute :: nat
  second :: nat

text \<open>
  What a run reads from outside: the clock (\<open>now e k\<close> is what \<^verbatim>\<open>datetime.now()\<close>
  returns when it is the \<open>k\<close>-th operation), the unseeded generator (\<open>rnd e j\<close> is the
  \<open>j\<close>-th value of \<^verbatim>\<open>random.random()\<close>), the faults, \<^verbatim>\<open>sys.version\<close>, \<^verbatim>\<open>__file__\<close>
  and \<^verbatim>\<open>os.getpid()\<close>.
\<close>

record env =
  now :: "nat \<Rightarrow> datetime"
  rnd :: "nat \<Rightarrow> rat"
  fault :: "nat \<Rightarrow> exc option"
  sys_version :: string
  script_file :: string
  pid :: int

record state =
  trace :: "event list"
  tick :: nat
  draws :: nat

type_synonym 'a prog = "env \<Rightarrow> state \<Rightarrow> (exc + 'a) \<times> state"

type_synonym stmt = "unit prog"

subsection \<open>Primitive operations and control flow\<close>

definition attempt :: "(env \<Rightarrow> state \<Rightarrow> 'a) \<Rightarrow> (state \<Rightarrow> state) \<Rightarrow> 'a prog" where
  "attempt rd upd e s =
     (case fault e (tick s) of
        Some x \<Rightarrow> (Inl x, s\<lparr>trace := trace s @ [Raised x], tick := Suc (tick s)\<rparr>)
      | None \<Rightarrow> (Inr (rd e s), (upd s)\<lparr>tick := Suc (tick s)\<rparr>))"

definition emit :: "event \<Rightarrow> stmt" where
  "emit ev = attempt (\<lambda>_ _. ()) (\<lambda>s. s\<lparr>trace := trace s @ [ev]\<rparr>)"

abbreviation newline :: string where
  "newline \<equiv> [CHR 0x0A]"

definition print_to :: "stream \<Rightarrow> string \<Rightarrow> stmt" where
  "print_to f txt = emit (Write f (txt @ newline))"

definition py_print :: "string \<Rightarrow> stmt" where
  "py_print txt = print_to Stdout txt"

definition flush :: "stream \<Rightarrow> stmt" where
  "flush f = emit (Flush f)"

definition sleep :: "rat \<Rightarrow> stmt" where
  "sleep d = emit (Sleep d)"

definition datetime_now :: "datetime prog" where
  "datetime_now = attempt (\<lambda>e s. now e (tick s)) (\<lambda>s. s)"

definition random_random :: "rat prog" where
  "random_random = attempt (\<lambda>e s. rnd e (draws s)) (\<lambda>s. s\<lparr>draws := Suc (draws s)\<rparr>)"

definition return :: "'a \<Rightarrow> 'a prog" where
  "return v e s = (Inr v, s)"

definition bind :: "'a prog \<Rightarrow> ('a \<Rightarrow> 'b prog) \<Rightarrow> 'b prog" where
  "bind m k e s = (case m e s of (Inl x, s') \<Rightarrow> (Inl x, s') | (Inr v, s') \<Rightarrow> k v e s')"

definition seq :: "stmt \<Rightarrow> 'a prog \<Rightarrow> 'a prog" where
  "seq a b = bind a (\<lambda>_. b)"

definition skip :: stmt where
  "skip = return ()"

fun block :: "stmt list \<Rightarrow> stmt" where
  "block [] = skip"
| "block (a # as) = seq a (block as)"

fun for_each :: "'a list \<Rightarrow> ('a \<Rightarrow> stmt) \<Rightarrow> stmt" where
  "for_each [] body = skip"
| "for_each (x # xs) body = seq (body x) (for_each xs body)"

definition if_then :: "bool \<Rightarrow> stmt \<Rightarrow> stmt" where
  "if_then c a = (if c then a else skip)"

definition try_except :: "'a prog \<Rightarrow> (exc \<Rightarrow> 'a prog) \<Rightarrow> 'a prog" where
  "try_except body handler e s =
     (case body e s of (Inl x, s') \<Rightarrow> handler x e s' | (Inr v, s') \<Rightarrow> (Inr v, s'))"

text \<open>
  A module run as \<^verbatim>\<open>__main__\<close>: the process exits with the code handed to
  \<^verbatim>\<open>sys.exit\<close> (0 when the module runs off its end), or dies of the exception nobody
  caught.
\<close>

datatype status = Exit int | Uncaught exc

definition run_module :: "'a prog \<Rightarrow> ('a \<Rightarrow> int) \<Rightarrow> env \<Rightarrow> state \<Rightarrow> status \<times> state" where
  "run_module m code e s =
     (case m e s of (Inl x, s') \<Rightarrow> (Uncaught x, s') | (Inr v, s') \<Rightarrow> (Exit (code v), s'))"

subsection \<open>Formatting\<close>

fun str_nat :: "nat \<Rightarrow> string" where
  "str_nat n =
     (if n < 10 then [''0123456789'' ! n]
      else str_nat (n div 10) @ [''0123456789'' ! (n mod 10)])"

definition str_int :: "int \<Rightarrow> string" where
  "str_int i = (if i < 0 then ''-'' @ str_nat (nat (- i)) else str_nat (nat i))"

definition str_mul :: "string \<Rightarrow> int \<Rightarrow> string" where
  "str_mul s n = concat (replicate (nat n) s)"

definition py_range :: "int \<Rightarrow> int \<Rightarrow> int list" where
  "py_range a b = [a..b - 1]"

definition round_half_even :: "rat \<Rightarrow> int" where
  "round_half_even x =
     (let f = \<lfloor>x\<rfloor>; r = x - of_int f in
      if r < 1 / 2 then f else if 1 / 2 < r then f + 1 else if even f then f else f + 1)"

text \<open>
  The format specification \<^verbatim>\<open>.1f\<close>: one decimal place, rounded half to even. The
  script formats \<^verbatim>\<open>(i / steps) * 100\<close>, a float that differs from the exact multiple
  of ten by less than a billionth, so the float and the rational print alike.
\<close>

definition fmt_1f :: "rat \<Rightarrow> string" where
  "fmt_1f x =
     (let t = round_half_even (\<bar>x\<bar> * 10) in
      (if x < 0 then ''-'' else []) @ str_nat (nat (t div 10)) @ ''.'' @ str_nat (nat (t mod 10)))"

definition zfill :: "nat \<Rightarrow> string \<Rightarrow> string" where
  "zfill w s = replicate (w - length s) CHR ''0'' @ s"

definition directive :: "datetime \<Rightarrow> char \<Rightarrow> string" where
  "directive t c =
     (if c = CHR ''Y'' then zfill 4 (str_nat (year t))
      else if c = CHR ''m'' then zfill 2 (str_nat (month t))
      else if c = CHR ''d'' then zfill 2 (str_nat (day t))
      else if c = CHR ''H'' then zfill 2 (str_nat (hour t))
      else if c = CHR ''M'' then zfill 2 (str_nat (minute t))
      else if c = CHR ''S'' then zfill 2 (str_nat (second t))
      else [CHR ''%'', c])"

fun strftime :: "datetime \<Rightarrow> string \<Rightarrow> string" where
  "strftime t [] = []"
| "strftime t [c] = [c]"
| "strftime t (c # d # fs) =
     (if c = CHR ''%'' then directive t d @ strftime t fs else c # strftime t (d # fs))"

definition basename :: "string \<Rightarrow> string" where
  "basename p = rev (takeWhile (\<lambda>c. c \<noteq> CHR ''/'') (rev p))"

section \<open>demo\_output.py\<close>

definition demo_output_main :: stmt where
  "demo_output_main = block [
     py_print ''=== Script Runner Demo ==='',
     (\<lambda>e. py_print (''Script: '' @ basename (script_file e)) e),
     (\<lambda>e. py_print (''PID: '' @ str_int (pid e)) e),
     py_print [],
     py_print ''Starting demonstration...'',
     sleep 1,
     for_each (py_range 1 11) (\<lambda>i. block [
       py_print (''Progress: '' @ str_int i @ ''/10 ('' @ str_int (i * 10) @ ''%)''),
       flush Stdout,
       sleep (1 / 2)]),
     py_print [],
     py_print ''Testing different output types:'',
     print_to Stdout ''This goes to stdout'',
     print_to Stderr ''This goes to stderr'',
     flush Stderr,
     py_print (newline @ ''Generating long output:''),
     for_each (py_range 0 20) (\<lambda>i. block [
       py_print (''Line '' @ str_int (i + 1)
                 @ '': Lorem ipsum dolor sit amet, consectetur adipiscing elit.''),
       if_then (i mod 5 = 4) (sleep (3 / 10))]),
     py_print (newline @ [CHR 0xE2, CHR 0x9C, CHR 0x93] @ '' Demo completed successfully!''),
     py_print ''Total execution time: ~8 seconds'']"

definition demo_output_script :: "env \<Rightarrow> state \<Rightarrow> status \<times> state" where
  "demo_output_script = run_module demo_output_main (\<lambda>_. 0)"

section \<open>example\_task.py\<close>

definition log_message :: "string \<Rightarrow> string \<Rightarrow> stmt" where
  "log_message message level =
     bind datetime_now (\<lambda>t. block [
       py_print (''['' @ strftime t ''%Y-%m-%d %H:%M:%S'' @ ''] '' @ level @ '': '' @ message),
       flush Stdout])"

text \<open>A call that leaves \<^verbatim>\<open>level\<close> out takes the default \<^verbatim>\<open>"INFO"\<close>.\<close>

definition log_message1 :: "string \<Rightarrow> stmt" where
  "log_message1 message = log_message message ''INFO''"

definition simulate_work :: "int \<Rightarrow> string \<Rightarrow> stmt" where
  "simulate_work duration task_name =
     (let steps = 10; step_duration = of_int duration / of_int steps in
      block [
        log_message1 (''Starting '' @ task_name),
        for_each (py_range 0 (steps + 1)) (\<lambda>i. block [
          log_message1 (task_name @ '' progress: ''
                        @ fmt_1f (of_int i / of_int steps * 100) @ ''%''),
          if_then (i < steps) (block [
            sleep step_duration,
            bind random_random (\<lambda>r.
              if_then (r < 1 / 10)
                (log_message (''Minor issue in '' @ task_name
                              @ '' (step '' @ str_int (i + 1) @ '')'') ''WARNING''))])]),
        log_message1 (''Completed '' @ task_name)])"

definition tasks :: "(string \<times> int) list" where
  "tasks = [(''Data Processing'', 3), (''File Analysis'', 2), (''Report Generation'', 4)]"

definition main_try :: "int prog" where
  "main_try = seq (block [
     log_message1 ''Python example script starting'',
     (\<lambda>e. log_message1 (''Python version: '' @ sys_version e) e),
     for_each tasks (\<lambda>(task_name, duration). block [
       simulate_work duration task_name,
       sleep (1 / 2)]),
     log_message1 ''All tasks completed successfully'',
     log_message1 ''Summary: 3 tasks executed, 0 errors''])
     (return 0)"

definition main_except :: "exc \<Rightarrow> int prog" where
  "main_except x =
     (case x of
        KeyboardInterrupt \<Rightarrow>
          seq (log_message ''Script interrupted by user'' ''WARNING'') (return 130)
      | Exception txt \<Rightarrow>
          seq (log_message (''Unexpected error: '' @ txt) ''ERROR'') (return 1))"

definition example_task_main :: "int prog" where
  "example_task_main = try_except main_try main_except"

definition example_task_script :: "env \<Rightarrow> state \<Rightarrow> status \<times> state" where
  "example_task_script = run_module example_task_main (\<lambda>exit_code. exit_code)"

section \<open>test\_colors.py\<close>

definition print_colored :: "string \<Rightarrow> string \<Rightarrow> stmt" where
  "print_colored txt color_code =
     py_print (CHR 0x1B # ''['' @ color_code @ ''m'' @ txt @ CHR 0x1B # ''[0m'')"

definition colors :: "(string \<times> string) list" where
  "colors = [
     (''Red'', ''31''),
     (''Green'', ''32''),
     (''Yellow'', ''33''),
     (''Blue'', ''34''),
     (''Magenta'', ''35''),
     (''Cyan'', ''36''),
     (''White'', ''37'')]"

definition bright_colors :: "(string \<times> string) list" where
  "bright_colors = [
     (''Bright Red'', ''91''),
     (''Bright Green'', ''92''),
     (''Bright Yellow'', ''93''),
     (''Bright Blue'', ''94''),
     (''Bright Magenta'', ''95''),
     (''Bright Cyan'', ''96''),
     (''Bright White'', ''97'')]"

definition log_entries :: "(string \<times> string \<times> string) list" where
  "log_entries = [
     (''INFO'', ''32'', ''Application started successfully''),
     (''DEBUG'', ''36'', ''Loading configuration file''),
     (''WARNING'', ''33'', ''Configuration file not found, using defaults''),
     (''ERROR'', ''31'', ''Failed to connect to database''),
     (''INFO'', ''32'', ''Retrying connection...''),
     (''SUCCESS'', ''92'', ''Connected to database successfully'')]"

definition test_colors_main :: stmt where
  "test_colors_main = block [
     py_print ''Python ANSI Color Test'',
     py_print (str_mul ''='' 25),
     for_each colors (\<lambda>(name, code). block [
       print_colored (name @ '' text'') code,
       sleep (1 / 2)]),
     py_print (newline @ ''Bright colors:''),
     for_each bright_colors (\<lambda>(name, code). block [
       print_colored (name @ '' text'') code,
       sleep (1 / 2)]),
     py_print (newline @ ''Real-time log simulation:''),
     for_each log_entries (\<lambda>(level, color, message). block [
       print_colored (''['' @ level @ '']'') color,
       py_print ('' '' @ message),
       sleep 1]),
     py_print (newline @ ''Color test completed!'')]"

definition test_colors_script :: "env \<Rightarrow> state \<Rightarrow> status \<times> state" where
  "test_colors_script = run_module test_colors_main (\<lambda>_. 0)"

section \<open>Vocabulary of the properties\<close>

text \<open>
  A run meets no fault from state \<open>s\<close> on when the oracle is silent at every operation
  still to come. \<open>added p e s\<close> is what the run of \<open>p\<close> appends to the trace.
\<close>

definition no_faults :: "env \<Rightarrow> state \<Rightarrow> bool" where
  "no_faults e s \<longleftrightarrow> (\<forall>k\<ge>tick s. fault e k = None)"

definition added :: "'a prog \<Rightarrow> env \<Rightarrow> state \<Rightarrow> event list" where
  "added p e s = drop (length (trace s)) (trace (snd (p e s)))"

text \<open>
  \<open>emits f e p v X m\<close>: from every state with no fault ahead, \<open>p\<close> returns \<open>v\<close>, draws \<open>m\<close>
  random numbers, and the events it adds, seen through \<open>f\<close>, are \<open>X d\<close>, where \<open>d\<close> counts
  the draws made before.
\<close>

definition emits ::
  "(event \<Rightarrow> 'b list) \<Rightarrow> env \<Rightarrow> 'a prog \<Rightarrow> 'a \<Rightarrow> (nat \<Rightarrow> 'b list) \<Rightarrow> nat \<Rightarrow> bool" where
  "emits f e p v X m \<longleftrightarrow>
     (\<forall>s. no_faults e s \<longrightarrow>
        (\<exists>Y t. p e s = (Inr v, s\<lparr>trace := trace s @ Y, tick := t, draws := draws s + m\<rparr>)
             \<and> tick s \<le> t \<and> concat (map f Y) = X (draws s)))"

text \<open>The texts written to one stream, in order.\<close>

definition written_ev :: "stream \<Rightarrow> event \<Rightarrow> string list" where
  "written_ev f ev = (case ev of Write g l \<Rightarrow> if g = f then [l] else [] | _ \<Rightarrow> [])"

definition written :: "stream \<Rightarrow> event list \<Rightarrow> string list" where
  "written f tr = concat (map (written_ev f) tr)"

text \<open>The lines of a text, as \<^verbatim>\<open>str.splitlines\<close> cuts them at line feeds.\<close>

definition split_lines :: "string \<Rightarrow> string list" where
  "split_lines txt =
     foldr (\<lambda>c acc. if c = CHR 0x0A then [] # acc
                     else (case acc of [] \<Rightarrow> [[c]] | l # ls \<Rightarrow> (c # l) # ls)) txt []"

text \<open>For each occurrence of an event in a trace, the event right after it.\<close>

fun successors :: "event \<Rightarrow> event list \<Rightarrow> event option list" where
  "successors ev [] = []"
| "successors ev [x] = (if x = ev then [None] else [])"
| "successors ev (x # y # tr) = (if x = ev then [Some y] else []) @ successors ev (y # tr)"

text \<open>The shape of a trace: every event with the text of a write left out.\<close>

definition shape :: "event \<Rightarrow> event" where
  "shape ev = (case ev of Write f l \<Rightarrow> Write f [] | _ \<Rightarrow> ev)"

subsection \<open>Log lines\<close>

text \<open>
  \<open>message_of\<close> cuts the bracketed timestamp off a log line. The skeleton of a trace
  leaves out what differs between two runs of the task simulator: the timestamps, the
  randomised warning lines, and the flushes (one follows every line, warnings included).
\<close>

abbreviation stamp_format :: string where
  "stamp_format \<equiv> ''%Y-%m-%d %H:%M:%S''"

definition message_of :: "string \<Rightarrow> string" where
  "message_of l = drop 2 (dropWhile (\<lambda>c. c \<noteq> CHR '']'') l)"

definition is_warning :: "string \<Rightarrow> bool" where
  "is_warning l \<longleftrightarrow> take 9 (message_of l) = ''WARNING: ''"

definition skeleton_ev :: "event \<Rightarrow> event list" where
  "skeleton_ev ev =
     (case ev of
        Write f l \<Rightarrow> if is_warning l then [] else [Write f (message_of l)]
      | Flush f \<Rightarrow> []
      | _ \<Rightarrow> [ev])"

definition skeleton :: "event list \<Rightarrow> event list" where
  "skeleton tr = concat (map skeleton_ev tr)"

definition warning_ev :: "event \<Rightarrow> string list" where
  "warning_ev ev = (case ev of Write f l \<Rightarrow> if is_warning l then [message_of l] else [] | _ \<Rightarrow> [])"

definition warnings :: "event list \<Rightarrow> string list" where
  "warnings tr = concat (map warning_ev tr)"

text \<open>
  The untimed trace keeps every event in its place and cuts only the timestamps off the
  written lines.
\<close>

definition untimed_ev :: "event \<Rightarrow> event list" where
  "untimed_ev ev = (case ev of Write f l \<Rightarrow> [Write f (message_of l)] | _ \<Rightarrow> [ev])"

definition untimed :: "event list \<Rightarrow> event list" where
  "untimed tr = concat (map untimed_ev tr)"

text \<open>
  The body of the \<^verbatim>\<open>for\<close> loop of \<^verbatim>\<open>simulate_work\<close>, named so that one step can be
  spoken of; \<open>simulate_work_steps\<close> below shows that \<open>simulate_work\<close> is the loop over it.
\<close>

definition simulate_step :: "rat \<Rightarrow> string \<Rightarrow> int \<Rightarrow> int \<Rightarrow> stmt" where
  "simulate_step step_duration task_name steps i = block [
     log_message1 (task_name @ '' progress: '' @ fmt_1f (of_int i / of_int steps * 100) @ ''%''),
     if_then (i < steps) (block [
       sleep step_duration,
       bind random_random (\<lambda>r.
         if_then (r < 1 / 10)
           (log_message (''Minor issue in '' @ task_name
                         @ '' (step '' @ str_int (i + 1) @ '')'') ''WARNING''))])]"

text \<open>
  The dates a clock can return: every field in its range, the year with four digits
  (before the year 1000 the platforms disagree on the padding of \<^verbatim>\<open>%Y\<close>).
\<close>

definition valid_datetime :: "datetime \<Rightarrow> bool" where
  "valid_datetime t \<longleftrightarrow>
     1000 \<le> year t \<and> year t \<le> 9999 \<and> 1 \<le> month t \<and> month t \<le> 12 \<and> 1 \<le> day t \<and> day t \<le> 31
     \<and> hour t \<le> 23 \<and> minute t \<le> 59 \<and> second t \<le> 59"

text \<open>
  A timestamp has the shape \<^verbatim>\<open>YYYY-MM-DD HH:MM:SS\<close>: with every digit replaced by
  \<^verbatim>\<open>9\<close> it reads \<^verbatim>\<open>9999-99-99 99:99:99\<close>.
\<close>

definition digit_class :: "char \<Rightarrow> char" where
  "digit_class c = (if c \<in> set ''0123456789'' then CHR ''9'' else c)"

definition timestamp_shape :: "string \<Rightarrow> bool" where
  "timestamp_shape ts \<longleftrightarrow> map digit_class ts = ''9999-99-99 99:99:99''"

definition is_log_line :: "string \<Rightarrow> bool" where
  "is_log_line l \<longleftrightarrow>
     (\<exists>ts level message.
        l = ''['' @ ts @ ''] '' @ level @ '': '' @ message @ newline
        \<and> timestamp_shape ts \<and> level \<in> {''INFO'', ''WARNING'', ''ERROR''})"

text \<open>
  The discipline of \<^verbatim>\<open>log_message\<close>, read off a trace: every write is a log line on
  standard output, and the operation right after it is the flush of standard output,
  which either happens or is where an exception is raised. Nothing else is ever flushed.
\<close>

fun log_discipline :: "event list \<Rightarrow> bool" where
  "log_discipline [] = True"
| "log_discipline (Write f l # Flush g # tr) =
     (f = Stdout \<and> g = Stdout \<and> is_log_line l \<and> log_discipline tr)"
| "log_discipline (Write f l # Raised x # tr) = (f = Stdout \<and> is_log_line l \<and> log_discipline tr)"
| "log_discipline (Write f l # tr) = False"
| "log_discipline (Flush g # tr) = False"
| "log_discipline (ev # tr) = log_discipline tr"

text \<open>
  The stricter reading: every write is a log line on standard output and is followed by
  its flush, with no exception in between.
\<close>

fun flushed_lines :: "event list \<Rightarrow> bool" where
  "flushed_lines [] = True"
| "flushed_lines (Write f l # Flush g # tr) =
     (f = Stdout \<and> g = Stdout \<and> is_log_line l \<and> flushed_lines tr)"
| "flushed_lines (Write f l # tr) = False"
| "flushed_lines (Flush g # tr) = False"
| "flushed_lines (ev # tr) = flushed_lines tr"

text \<open>
  One physical line of output in the log format: as \<open>is_log_line\<close>, without the line feed
  at the end and with none inside the message. \<open>broken_ev\<close> marks the writes whose text
  holds a line feed before its last character.
\<close>

definition is_single_log_line :: "string \<Rightarrow> bool" where
  "is_single_log_line l \<longleftrightarrow>
     (\<exists>ts level message.
        l = ''['' @ ts @ ''] '' @ level @ '': '' @ message
        \<and> timestamp_shape ts \<and> level \<in> {''INFO'', ''WARNING'', ''ERROR''}
        \<and> CHR 0x0A \<notin> set message)"

definition broken_ev :: "event \<Rightarrow> unit list" where
  "broken_ev ev = (case ev of Write f l \<Rightarrow> if CHR 0x0A \<in> set (butlast l) then [()] else [] | _ \<Rightarrow> [])"

definition disciplined :: "env \<Rightarrow> 'a prog \<Rightarrow> bool" where
  "disciplined e p \<longleftrightarrow> (\<forall>s. \<exists>Y. trace (snd (p e s)) = trace s @ Y \<and> log_discipline Y)"

subsection \<open>Sample environments\<close>

definition noon :: datetime where
  "noon = \<lparr>year = 2024, month = 3, day = 9, hour = 12, minute = 0, second = 5\<rparr>"

definition quiet_env :: env where
  "quiet_env = \<lparr>now = (\<lambda>_. noon), rnd = (\<lambda>j. if j = 2 then 1 / 20 else 1 / 2),
     fault = (\<lambda>_. None), sys_version = ''3.12.3 (main, Apr 10 2024) [GCC 13.2.0]'',
     script_file = ''/opt/scripts/demo_output.py'', pid = 4242\<rparr>"

definition interrupted_env :: env where
  "interrupted_env = quiet_env\<lparr>fault := (\<lambda>k. if k = 12 then Some KeyboardInterrupt else None)\<rparr>"


definition other_env :: env where
  "other_env = quiet_env\<lparr>now := (\<lambda>k. noon\<lparr>minute := 7, second := k mod 60\<rparr>), rnd := (\<lambda>_. 9 / 10), pid := 777\<rparr>"

definition struck_flush_env :: env where
  "struck_flush_env = quiet_env\<lparr>fault := (\<lambda>k. if k = 2 then Some KeyboardInterrupt else None)\<rparr>"

definition two_line_version_env :: env where
  "two_line_version_env = quiet_env\<lparr>
     sys_version := ''3.8.10 (default, Nov 22 2023) '' @ newline @ ''[GCC 9.4.0]'',
     fault := (\<lambda>k. if k = 6 then Some KeyboardInterrupt else None)\<rparr>"

definition start :: state where
  "start = \<lparr>trace = [], tick = 0, draws = 0\<rparr>"

section \<open>Runs that meet no fault\<close>

lemma no_faults_later: "no_faults e s \<Longrightarrow> tick s \<le> t \<Longrightarrow> no_faults e (s\<lparr>trace := tr, tick := t, draws := d\<rparr>)"
  by (simp add: no_faults_def)

lemma emits_emit: "emits f e (emit ev) () (\<lambda>_. f ev) 0"
  unfolding emits_def emit_def attempt_def no_faults_def
  apply (intro allI impI)
  subgoal for s
    apply (rule exI [of _ "[ev]"])
    apply (rule exI [of _ "Suc (tick s)"])
    apply simp
    done
  done

lemma emits_return: "emits f e (return v) v (\<lambda>_. []) 0"
  unfolding emits_def return_def
  apply (intro allI impI)
  subgoal for s
    apply (rule exI [of _ "[]"])
    apply (rule exI [of _ "tick s"])
    apply simp
    done
  done

lemma emits_bind:
  assumes a: "emits f e a u X m" and b: "emits f e (k u) v Z n"
  shows "emits f e (bind a k) v (\<lambda>d. X d @ Z (d + m)) (m + n)"
  unfolding emits_def
proof (intro allI impI)
  fix s assume nf: "no_faults e s"
  from a nf obtain Y t where
    1: "a e s = (Inr u, s\<lparr>trace := trace s @ Y, tick := t, draws := draws s + m\<rparr>)"
    and 2: "tick s \<le> t" and 3: "concat (map f Y) = X (draws s)"
    unfolding emits_def by blast
  let ?s1 = "s\<lparr>trace := trace s @ Y, tick := t, draws := draws s + m\<rparr>"
  have nf1: "no_faults e ?s1" using nf 2 by (rule no_faults_later)
  from b nf1 obtain Y' t' where
    4: "k u e ?s1 = (Inr v, ?s1\<lparr>trace := trace ?s1 @ Y', tick := t', draws := draws ?s1 + n\<rparr>)"
    and 5: "tick ?s1 \<le> t'" and 6: "concat (map f Y') = Z (draws ?s1)"
    unfolding emits_def by blast
  have "bind a k e s = (Inr v, s\<lparr>trace := trace s @ (Y @ Y'), tick := t', draws := draws s + (m + n)\<rparr>)"
    using 1 4 by (simp add: bind_def add.assoc)
  moreover have "tick s \<le> t'" using 2 5 by simp
  moreover have "concat (map f (Y @ Y')) = X (draws s) @ Z (draws s + m)" using 3 6 by simp
  ultimately show "\<exists>Y t. bind a k e s = (Inr v, s\<lparr>trace := trace s @ Y, tick := t, draws := draws s + (m + n)\<rparr>)
             \<and> tick s \<le> t \<and> concat (map f Y) = X (draws s) @ Z (draws s + m)" by blast
qed

lemma emits_seq:
  "emits f e a () X m \<Longrightarrow> emits f e b v Z n \<Longrightarrow> emits f e (seq a b) v (\<lambda>d. X d @ Z (d + m)) (m + n)"
  unfolding seq_def by (rule emits_bind)

lemma emits_skip: "emits f e skip () (\<lambda>_. []) 0"
  unfolding skip_def by (rule emits_return)

lemma emits_now:
  assumes "\<And>t. emits f e (k t) v X m"
  shows "emits f e (bind datetime_now k) v X m"
  unfolding emits_def
proof (intro allI impI)
  fix s assume nf: "no_faults e s"
  let ?s1 = "s\<lparr>tick := Suc (tick s)\<rparr>"
  have nf1: "no_faults e ?s1" using nf by (simp add: no_faults_def)
  from assms [of "now e (tick s)"] nf1 obtain Y t where
    1: "k (now e (tick s)) e ?s1 = (Inr v, ?s1\<lparr>trace := trace ?s1 @ Y, tick := t, draws := draws ?s1 + m\<rparr>)"
    and 2: "tick ?s1 \<le> t" and 3: "concat (map f Y) = X (draws ?s1)"
    unfolding emits_def by blast
  have "fault e (tick s) = None" using nf by (simp add: no_faults_def)
  then have "bind datetime_now k e s = (Inr v, s\<lparr>trace := trace s @ Y, tick := t, draws := draws s + m\<rparr>)"
    using 1 by (simp add: bind_def datetime_now_def attempt_def)
  moreover have "tick s \<le> t" using 2 by simp
  ultimately show "\<exists>Y t. bind datetime_now k e s = (Inr v, s\<lparr>trace := trace s @ Y, tick := t, draws := draws s + m\<rparr>)
             \<and> tick s \<le> t \<and> concat (map f Y) = X (draws s)" using 3 by auto
qed

lemma emits_random:
  assumes "\<And>r. emits f e (k r) v (Z r) m"
  shows "emits f e (bind random_random k) v (\<lambda>d. Z (rnd e d) (d + 1)) (m + 1)"
  unfolding emits_def
proof (intro allI impI)
  fix s assume nf: "no_faults e s"
  let ?s1 = "s\<lparr>draws := Suc (draws s), tick := Suc (tick s)\<rparr>"
  have nf1: "no_faults e ?s1" using nf by (simp add: no_faults_def)
  from assms [of "rnd e (draws s)"] nf1 obtain Y t where
    1: "k (rnd e (draws s)) e ?s1 = (Inr v, ?s1\<lparr>trace := trace ?s1 @ Y, tick := t, draws := draws ?s1 + m\<rparr>)"
    and 2: "tick ?s1 \<le> t" and 3: "concat (map f Y) = Z (rnd e (draws s)) (draws ?s1)"
    unfolding emits_def by blast
  have "fault e (tick s) = None" using nf by (simp add: no_faults_def)
  then have "bind random_random k e s = (Inr v, s\<lparr>trace := trace s @ Y, tick := t, draws := draws s + (m + 1)\<rparr>)"
    using 1 by (simp add: bind_def random_random_def attempt_def)
  moreover have "tick s \<le> t" using 2 by simp
  ultimately show "\<exists>Y t. bind random_random k e s = (Inr v, s\<lparr>trace := trace s @ Y, tick := t, draws := draws s + (m + 1)\<rparr>)
             \<and> tick s \<le> t \<and> concat (map f Y) = Z (rnd e (draws s)) (draws s + 1)" using 3 by auto
qed

lemma emits_eq: "emits f e p v X m \<Longrightarrow> X = X' \<Longrightarrow> m = m' \<Longrightarrow> emits f e p v X' m'"
  by simp

lemma emits_if_then: "emits f e a () X 0 \<Longrightarrow> emits f e (if_then c a) () (\<lambda>d. if c then X d else []) 0"
  by (simp add: if_then_def emits_skip)

lemma emits_print_to: "emits f e (print_to g txt) () (\<lambda>_. f (Write g (txt @ newline))) 0"
  unfolding print_to_def by (rule emits_emit)

lemma emits_py_print: "emits f e (py_print txt) () (\<lambda>_. f (Write Stdout (txt @ newline))) 0"
  unfolding py_print_def by (rule emits_print_to)

lemma emits_py_print_env:
  "emits f e (\<lambda>e'. py_print (g e') e') () (\<lambda>_. f (Write Stdout (g e @ newline))) 0"
  using emits_py_print [of f e "g e"] by (simp add: emits_def)

lemma emits_flush: "emits f e (flush g) () (\<lambda>_. f (Flush g)) 0"
  unfolding flush_def by (rule emits_emit)

lemma emits_sleep: "emits f e (sleep d) () (\<lambda>_. f (Sleep d)) 0"
  unfolding sleep_def by (rule emits_emit)

lemma if_then_True: "if_then True a = a"
  by (simp add: if_then_def)

lemma if_then_False: "if_then False a = skip"
  by (simp add: if_then_def)

declare str_nat.simps [simp del]

lemma str_nat_0: "str_nat 0 = ''0''"
  by (simp add: str_nat.simps)

lemma str_nat_1: "str_nat 1 = ''1''"
  by (subst str_nat.simps) simp

lemma str_nat_Suc_0: "str_nat (Suc 0) = ''1''"
  by (subst str_nat.simps) simp

lemma str_nat_numeral:
  "str_nat (numeral k) =
     (if (numeral k :: nat) < 10 then [''0123456789'' ! numeral k]
      else str_nat (numeral k div 10) @ [''0123456789'' ! (numeral k mod 10)])"
  by (rule str_nat.simps)

lemma str_int_0: "str_int 0 = ''0''"
  by (simp add: str_int_def str_nat_0)

lemma str_int_1: "str_int 1 = ''1''"
  by (simp add: str_int_def str_nat.simps [of "Suc 0"])

lemma str_int_numeral: "str_int (numeral k) = str_nat (numeral k)"
  by (simp add: str_int_def)

lemmas str_eval = str_nat_0 str_nat_1 str_nat_Suc_0 str_nat_numeral str_int_0 str_int_1 str_int_numeral

lemmas emits_intros = emits_seq emits_skip emits_py_print emits_print_to emits_flush emits_sleep
  emits_py_print_env emits_return

lemma demo_output_emits:
  "emits (\<lambda>ev. [ev]) e demo_output_main ()
     (\<lambda>_. [Write Stdout (''=== Script Runner Demo ==='' @ newline),
           Write Stdout (''Script: '' @ basename (script_file e) @ newline),
           Write Stdout (''PID: '' @ str_int (pid e) @ newline),
           Write Stdout newline,
           Write Stdout (''Starting demonstration...'' @ newline),
           Sleep 1]
        @ concat (map (\<lambda>i. [Write Stdout (''Progress: '' @ str_int i @ ''/10 ('' @ str_int (i * 10) @ ''%)'' @ newline),
                               Flush Stdout, Sleep (1 / 2)]) [1..10])
        @ [Write Stdout newline,
           Write Stdout (''Testing different output types:'' @ newline),
           Write Stdout (''This goes to stdout'' @ newline),
           Write Stderr (''This goes to stderr'' @ newline),
           Flush Stderr,
           Write Stdout (newline @ ''Generating long output:'' @ newline)]
        @ concat (map (\<lambda>i. Write Stdout (''Line '' @ str_int (i + 1)
                                  @ '': Lorem ipsum dolor sit amet, consectetur adipiscing elit.'' @ newline)
                               # (if i mod 5 = 4 then [Sleep (3 / 10)] else [])) [0..19])
        @ [Write Stdout (newline @ [CHR 0xE2, CHR 0x9C, CHR 0x93] @ '' Demo completed successfully!'' @ newline),
           Write Stdout (''Total execution time: ~8 seconds'' @ newline)]) 0"
  unfolding demo_output_main_def py_range_def
  apply (simp add: upto.simps if_then_True if_then_False str_eval)
  apply (rule emits_eq)
    apply (rule emits_intros)+
   apply (simp add: fun_eq_iff)
  apply simp
  done

lemma emitsD:
  assumes "emits f e p v X m" and "no_faults e s"
  shows "fst (p e s) = Inr v" and "concat (map f (added p e s)) = X (draws s)"
    and "trace (snd (p e s)) = trace s @ added p e s"
proof -
  from assms obtain Y t where
    1: "p e s = (Inr v, s\<lparr>trace := trace s @ Y, tick := t, draws := draws s + m\<rparr>)"
    and 2: "concat (map f Y) = X (draws s)"
    unfolding emits_def by blast
  have 3: "added p e s = Y" using 1 by (simp add: added_def)
  show "fst (p e s) = Inr v" using 1 by simp
  show "concat (map f (added p e s)) = X (draws s)" using 2 3 by simp
  show "trace (snd (p e s)) = trace s @ added p e s" using 1 3 by simp
qed

lemma emits_exactD:
  assumes "emits (\<lambda>ev. [ev]) e p v X m" and "no_faults e s"
  shows "added p e s = X (draws s)"
  using emitsD(2) [OF assms] by simp

lemma no_faults_quiet: "no_faults quiet_env start"
  by (simp add: no_faults_def quiet_env_def)

lemma test_colors_emits:
  "emits (\<lambda>ev. [ev]) e test_colors_main ()
     (\<lambda>_. [Write Stdout (''Python ANSI Color Test'' @ newline),
           Write Stdout (''========================='' @ newline)]
        @ concat (map (\<lambda>(name, code).
            [Write Stdout (CHR 0x1B # ''['' @ code @ ''m'' @ name @ '' text'' @ CHR 0x1B # ''[0m'' @ newline),
             Sleep (1 / 2)]) colors)
        @ [Write Stdout (newline @ ''Bright colors:'' @ newline)]
        @ concat (map (\<lambda>(name, code).
            [Write Stdout (CHR 0x1B # ''['' @ code @ ''m'' @ name @ '' text'' @ CHR 0x1B # ''[0m'' @ newline),
             Sleep (1 / 2)]) bright_colors)
        @ [Write Stdout (newline @ ''Real-time log simulation:'' @ newline)]
        @ concat (map (\<lambda>(level, color, message).
            [Write Stdout (CHR 0x1B # ''['' @ color @ ''m['' @ level @ '']'' @ CHR 0x1B # ''[0m'' @ newline),
             Write Stdout ('' '' @ message @ newline),
             Sleep 1]) log_entries)
        @ [Write Stdout (newline @ ''Color test completed!'' @ newline)]) 0"
  unfolding test_colors_main_def colors_def bright_colors_def log_entries_def print_colored_def
  apply (simp add: str_mul_def eval_nat_numeral)
  apply (rule emits_eq)
    apply (rule emits_intros)+
   apply (simp add: fun_eq_iff)
  apply simp
  done

section \<open>The demo output generator\<close>

text \<open>
  Claim C2. In a run that meets no fault, \<^verbatim>\<open>demo_output.py\<close> returns normally and
  performs exactly this sequence: the banner (title, script name, process id, an empty
  line, the starting line, a one second delay); ten lines \<^verbatim>\<open>Progress: i/10 (p%)\<close> for
  \<open>i = 1..10\<close> with \<open>p = 10 i\<close>, each followed by a flush of standard output and a half
  second delay; two header lines; one line to standard output and one to standard error
  with their literal texts; twenty numbered Lorem ipsum lines, numbered 1 to 20 in order,
  with a 0.3 second delay after every fifth; the completion banner. Counted over the whole
  run: exactly ten writes start with \<^verbatim>\<open>Progress:\<close> (percentages 10 to 100 in order), one
  write is the standard output line, one write goes to standard error, and twenty writes
  start with \<^verbatim>\<open>Line\<close>.
\<close>

theorem demo_output_sequence:
  assumes "no_faults e s"
  shows "fst (demo_output_main e s) = Inr ()
    \<and> added demo_output_main e s =
        [Write Stdout (''=== Script Runner Demo ==='' @ newline),
         Write Stdout (''Script: '' @ basename (script_file e) @ newline),
         Write Stdout (''PID: '' @ str_int (pid e) @ newline),
         Write Stdout newline,
         Write Stdout (''Starting demonstration...'' @ newline),
         Sleep 1]
        @ concat (map (\<lambda>i. [Write Stdout (''Progress: '' @ str_int i @ ''/10 ('' @ str_int (i * 10) @ ''%)'' @ newline),
                             Flush Stdout, Sleep (1 / 2)]) [1..10])
        @ [Write Stdout newline,
           Write Stdout (''Testing different output types:'' @ newline),
           Write Stdout (''This goes to stdout'' @ newline),
           Write Stderr (''This goes to stderr'' @ newline),
           Flush Stderr,
           Write Stdout (newline @ ''Generating long output:'' @ newline)]
        @ concat (map (\<lambda>i. Write Stdout (''Line '' @ str_int (i + 1)
                                  @ '': Lorem ipsum dolor sit amet, consectetur adipiscing elit.'' @ newline)
                               # (if i mod 5 = 4 then [Sleep (3 / 10)] else [])) [0..19])
        @ [Write Stdout (newline @ [CHR 0xE2, CHR 0x9C, CHR 0x93] @ '' Demo completed successfully!'' @ newline),
           Write Stdout (''Total execution time: ~8 seconds'' @ newline)]
    \<and> filter (\<lambda>l. take 9 l = ''Progress:'') (written Stdout (added demo_output_main e s)) =
        map (\<lambda>(i, p). ''Progress: '' @ i @ ''/10 ('' @ p @ ''%)'' @ newline)
          [(''1'', ''10''), (''2'', ''20''), (''3'', ''30''), (''4'', ''40''), (''5'', ''50''),
           (''6'', ''60''), (''7'', ''70''), (''8'', ''80''), (''9'', ''90''), (''10'', ''100'')]
    \<and> filter (\<lambda>l. l = ''This goes to stdout'' @ newline) (written Stdout (added demo_output_main e s)) =
        [''This goes to stdout'' @ newline]
    \<and> written Stderr (added demo_output_main e s) = [''This goes to stderr'' @ newline]
    \<and> filter (\<lambda>l. take 5 l = ''Line '') (written Stdout (added demo_output_main e s)) =
        map (\<lambda>n. ''Line '' @ str_int n @ '': Lorem ipsum dolor sit amet, consectetur adipiscing elit.'' @ newline)
          [1..20]"
proof -
  note a = emits_exactD [OF demo_output_emits assms]
  have 1: "fst (demo_output_main e s) = Inr ()"
    by (rule emitsD(1) [OF demo_output_emits assms])
  have 2: "filter (\<lambda>l. take 9 l = ''Progress:'') (written Stdout (added demo_output_main e s)) =
        map (\<lambda>(i, p). ''Progress: '' @ i @ ''/10 ('' @ p @ ''%)'' @ newline)
          [(''1'', ''10''), (''2'', ''20''), (''3'', ''30''), (''4'', ''40''), (''5'', ''50''),
           (''6'', ''60''), (''7'', ''70''), (''8'', ''80''), (''9'', ''90''), (''10'', ''100'')]"
    unfolding a by (simp add: written_def written_ev_def upto.simps str_eval)
  have 3: "filter (\<lambda>l. l = ''This goes to stdout'' @ newline) (written Stdout (added demo_output_main e s)) =
        [''This goes to stdout'' @ newline]"
    unfolding a by (simp add: written_def written_ev_def upto.simps str_eval)
  have 4: "written Stderr (added demo_output_main e s) = [''This goes to stderr'' @ newline]"
    unfolding a by (simp add: written_def written_ev_def upto.simps)
  have 5: "filter (\<lambda>l. take 5 l = ''Line '') (written Stdout (added demo_output_main e s)) =
        map (\<lambda>n. ''Line '' @ str_int n @ '': Lorem ipsum dolor sit amet, consectetur adipiscing elit.'' @ newline)
          [1..20]"
    unfolding a by (simp add: written_def written_ev_def upto.simps str_eval)
  show ?thesis using 1 a 2 3 4 5 by (intro conjI)
qed
theorem demo_output_sequence_witness:
  "no_faults quiet_env start
   \<and> fst (demo_output_main quiet_env start) = Inr ()
   \<and> take 6 (added demo_output_main quiet_env start) =
       [Write Stdout (''=== Script Runner Demo ==='' @ newline),
        Write Stdout (''Script: demo_output.py'' @ newline),
        Write Stdout (''PID: 4242'' @ newline),
        Write Stdout newline,
        Write Stdout (''Starting demonstration...'' @ newline),
        Sleep 1]
   \<and> written Stderr (added demo_output_main quiet_env start) = [''This goes to stderr'' @ newline]"
proof -
  note w = demo_output_sequence [OF no_faults_quiet]
  have 1: "fst (demo_output_main quiet_env start) = Inr ()"
    using w by (rule conjunct1)
  have 2: "take 6 (added demo_output_main quiet_env start) =
       [Write Stdout (''=== Script Runner Demo ==='' @ newline),
        Write Stdout (''Script: demo_output.py'' @ newline),
        Write Stdout (''PID: 4242'' @ newline),
        Write Stdout newline,
        Write Stdout (''Starting demonstration...'' @ newline),
        Sleep 1]"
    unfolding w [THEN conjunct2, THEN conjunct1]
    by (simp add: quiet_env_def basename_def str_eval)
  have 3: "written Stderr (added demo_output_main quiet_env start) = [''This goes to stderr'' @ newline]"
    using w by blast
  show ?thesis using no_faults_quiet 1 2 3 by (intro conjI)
qed

lemma emits_runD:
  assumes "emits f e p v X m" and "no_faults e s"
  shows "\<exists>s'. p e s = (Inr v, s')"
  using assms unfolding emits_def by blast

lemma demo_successors:
  assumes "no_faults e s"
  shows "successors (Write Stdout (''This goes to stdout'' @ newline)) (added demo_output_main e s) =
           [Some (Write Stderr (''This goes to stderr'' @ newline))]"
    and "successors (Write Stderr (''This goes to stderr'' @ newline)) (added demo_output_main e s) =
           [Some (Flush Stderr)]"
    and "Flush Stdout \<notin> set (dropWhile (\<lambda>ev. ev \<noteq> Write Stdout (''This goes to stdout'' @ newline))
           (added demo_output_main e s))"
  unfolding emits_exactD [OF demo_output_emits assms]
  by (simp_all add: upto.simps str_eval)

text \<open>
  Claim C4, as the specification states it: the line written to standard output and the
  line written to standard error are each flushed before the next statement runs. It
  does not hold of the line on standard output. In the sample run below, the operation
  right after that write is the write to standard error, not a flush.
\<close>

theorem demo_stdout_line_not_flushed:
  "\<not> (successors (Write Stdout (''This goes to stdout'' @ newline))
          (added demo_output_main quiet_env start) = [Some (Flush Stdout)]
       \<and> successors (Write Stderr (''This goes to stderr'' @ newline))
          (added demo_output_main quiet_env start) = [Some (Flush Stderr)])"
  using demo_successors(1) [OF no_faults_quiet] by simp

text \<open>
  Claim C4, amended. In a run that meets no fault, the one line written to standard error
  is flushed at once: its successor in the trace is the flush of standard error. The one
  line written to standard output just before is followed by no flush: its successor is
  the write to standard error, and standard output is not flushed again in the rest of
  the run.
\<close>

theorem demo_stderr_line_flushed:
  assumes "no_faults e s"
  shows "successors (Write Stderr (''This goes to stderr'' @ newline)) (added demo_output_main e s) =
           [Some (Flush Stderr)]
    \<and> successors (Write Stdout (''This goes to stdout'' @ newline)) (added demo_output_main e s) =
           [Some (Write Stderr (''This goes to stderr'' @ newline))]
    \<and> Flush Stdout \<notin> set (dropWhile (\<lambda>ev. ev \<noteq> Write Stdout (''This goes to stdout'' @ newline))
           (added demo_output_main e s))"
  using demo_successors [OF assms] by (intro conjI)

theorem demo_stderr_line_flushed_witness:
  "no_faults quiet_env start
   \<and> successors (Write Stderr (''This goes to stderr'' @ newline))
        (added demo_output_main quiet_env start) = [Some (Flush Stderr)]
   \<and> successors (Write Stdout (''This goes to stdout'' @ newline))
        (added demo_output_main quiet_env start) = [Some (Write Stderr (''This goes to stderr'' @ newline))]"
  using no_faults_quiet demo_stderr_line_flushed [OF no_faults_quiet] by (intro conjI) blast+

section \<open>The color probe\<close>

lemma colors_codes: "map snd (colors @ bright_colors) = map str_int ([31..37] @ [91..97])"
  by (simp add: colors_def bright_colors_def upto.simps str_eval)

text \<open>
  Claim C7. In a run that meets no fault, \<^verbatim>\<open>test_colors.py\<close> writes, after its title,
  one line for each of the seven standard and then (after a header) each of the seven
  bright colors, in table order: the escape sequence \<^verbatim>\<open>ESC[<code>m\<close>, the color's name and
  \<^verbatim>\<open>text\<close>, and right after it the reset \<^verbatim>\<open>ESC[0m\<close>; each line is followed by a half second
  delay. The codes are 31 to 37 and 91 to 97, fourteen lines in all. Then, after a header,
  come the six entries of the log table in order, each followed by a one second delay, and
  the closing line.
\<close>

theorem test_colors_sequence:
  assumes "no_faults e s"
  shows "fst (test_colors_main e s) = Inr ()
    \<and> added test_colors_main e s =
        [Write Stdout (''Python ANSI Color Test'' @ newline),
         Write Stdout (''========================='' @ newline)]
        @ concat (map (\<lambda>(name, code).
            [Write Stdout (CHR 0x1B # ''['' @ code @ ''m'' @ name @ '' text'' @ CHR 0x1B # ''[0m'' @ newline),
             Sleep (1 / 2)]) colors)
        @ [Write Stdout (newline @ ''Bright colors:'' @ newline)]
        @ concat (map (\<lambda>(name, code).
            [Write Stdout (CHR 0x1B # ''['' @ code @ ''m'' @ name @ '' text'' @ CHR 0x1B # ''[0m'' @ newline),
             Sleep (1 / 2)]) bright_colors)
        @ [Write Stdout (newline @ ''Real-time log simulation:'' @ newline)]
        @ concat (map (\<lambda>(level, color, message).
            [Write Stdout (CHR 0x1B # ''['' @ color @ ''m['' @ level @ '']'' @ CHR 0x1B # ''[0m'' @ newline),
             Write Stdout ('' '' @ message @ newline),
             Sleep 1]) log_entries)
        @ [Write Stdout (newline @ ''Color test completed!'' @ newline)]
    \<and> map snd (colors @ bright_colors) = map str_int ([31..37] @ [91..97])
    \<and> length (colors @ bright_colors) = 14
    \<and> map fst log_entries = [''INFO'', ''DEBUG'', ''WARNING'', ''ERROR'', ''INFO'', ''SUCCESS'']
    \<and> map (fst \<circ> snd) log_entries = map str_int [32, 36, 33, 31, 32, 92]"
proof -
  have 1: "fst (test_colors_main e s) = Inr ()"
    by (rule emitsD(1) [OF test_colors_emits assms])
  note 2 = emits_exactD [OF test_colors_emits assms]
  have 3: "length (colors @ bright_colors) = 14"
    by (simp add: colors_def bright_colors_def)
  have 4: "map fst log_entries = [''INFO'', ''DEBUG'', ''WARNING'', ''ERROR'', ''INFO'', ''SUCCESS'']"
    by (simp add: log_entries_def)
  have 5: "map (fst \<circ> snd) log_entries = map str_int [32, 36, 33, 31, 32, 92]"
    by (simp add: log_entries_def str_eval)
  show ?thesis using 1 2 colors_codes 3 4 5 by (intro conjI)
qed

theorem test_colors_sequence_witness:
  "no_faults quiet_env start
   \<and> fst (test_colors_main quiet_env start) = Inr ()
   \<and> take 4 (added test_colors_main quiet_env start) =
       [Write Stdout (''Python ANSI Color Test'' @ newline),
        Write Stdout (''========================='' @ newline),
        Write Stdout (CHR 0x1B # ''[31mRed text'' @ CHR 0x1B # ''[0m'' @ newline),
        Sleep (1 / 2)]
   \<and> length (added test_colors_main quiet_env start) = 51"
proof -
  note w = test_colors_sequence [OF no_faults_quiet]
  have 1: "fst (test_colors_main quiet_env start) = Inr ()"
    using w by (rule conjunct1)
  have 2: "take 4 (added test_colors_main quiet_env start) =
       [Write Stdout (''Python ANSI Color Test'' @ newline),
        Write Stdout (''========================='' @ newline),
        Write Stdout (CHR 0x1B # ''[31mRed text'' @ CHR 0x1B # ''[0m'' @ newline),
        Sleep (1 / 2)]"
    unfolding w [THEN conjunct2, THEN conjunct1] by (simp add: colors_def)
  have 3: "length (added test_colors_main quiet_env start) = 51"
    unfolding w [THEN conjunct2, THEN conjunct1]
    by (simp add: colors_def bright_colors_def log_entries_def)
  show ?thesis using no_faults_quiet 1 2 3 by (intro conjI)
qed

subsection \<open>The simulated log stream, line by line\<close>

lemma split_lines_Nil: "split_lines [] = []"
  by (simp add: split_lines_def)

lemma split_lines_snoc_line:
  assumes "CHR 0x0A \<notin> set l"
  shows "split_lines (l @ CHR 0x0A # txt) = l # split_lines txt"
  using assms
proof (induction l)
  case Nil
  then show ?case by (simp add: split_lines_def)
next
  case (Cons c l)
  then show ?case by (auto simp add: split_lines_def)
qed

lemma split_lines_concat:
  "\<forall>l\<in>set ls. CHR 0x0A \<notin> set l \<Longrightarrow> split_lines (concat (map (\<lambda>l. l @ newline) ls)) = ls"
  by (induction ls) (simp_all add: split_lines_Nil split_lines_snoc_line)

lemma colors_text:
  assumes "no_faults e s"
  shows "concat (written Stdout (added test_colors_main e s)) =
     concat (map (\<lambda>l. l @ newline)
       ([''Python ANSI Color Test'', ''========================='']
        @ map (\<lambda>(name, code). CHR 0x1B # ''['' @ code @ ''m'' @ name @ '' text'' @ CHR 0x1B # ''[0m'') colors
        @ [[], ''Bright colors:'']
        @ map (\<lambda>(name, code). CHR 0x1B # ''['' @ code @ ''m'' @ name @ '' text'' @ CHR 0x1B # ''[0m'') bright_colors
        @ [[], ''Real-time log simulation:'']
        @ concat (map (\<lambda>(level, color, message).
            [CHR 0x1B # ''['' @ color @ ''m['' @ level @ '']'' @ CHR 0x1B # ''[0m'', '' '' @ message])
            log_entries)
        @ [[], ''Color test completed!'']))"
  unfolding emits_exactD [OF test_colors_emits assms]
  by (simp add: written_def written_ev_def colors_def bright_colors_def log_entries_def)

text \<open>
  Claim C10. In a run that meets no fault, the text on standard output, cut into lines,
  holds after its first twenty lines exactly two lines for each of the six log entries, in
  order: the colored label \<^verbatim>\<open>[LEVEL]\<close> followed by the reset, alone on its line, and then
  the message behind a single space on the next line. The label and the message are never
  on one line.
\<close>

theorem test_colors_log_lines:
  assumes "no_faults e s"
  shows "drop 20 (split_lines (concat (written Stdout (added test_colors_main e s)))) =
     concat (map (\<lambda>(level, color, message).
        [CHR 0x1B # ''['' @ color @ ''m['' @ level @ '']'' @ CHR 0x1B # ''[0m'', '' '' @ message])
        log_entries) @ [[], ''Color test completed!'']"
  unfolding colors_text [OF assms]
  apply (subst split_lines_concat)
   apply (simp add: colors_def bright_colors_def log_entries_def)
  apply (simp add: colors_def bright_colors_def)
  done

theorem test_colors_log_lines_witness:
  "no_faults quiet_env start
   \<and> take 4 (drop 20 (split_lines (concat (written Stdout (added test_colors_main quiet_env start))))) =
       [CHR 0x1B # ''[32m[INFO]'' @ CHR 0x1B # ''[0m'',
        '' Application started successfully'',
        CHR 0x1B # ''[36m[DEBUG]'' @ CHR 0x1B # ''[0m'',
        '' Loading configuration file'']"
proof -
  have "take 4 (drop 20 (split_lines (concat (written Stdout (added test_colors_main quiet_env start))))) =
       [CHR 0x1B # ''[32m[INFO]'' @ CHR 0x1B # ''[0m'',
        '' Application started successfully'',
        CHR 0x1B # ''[36m[DEBUG]'' @ CHR 0x1B # ''[0m'',
        '' Loading configuration file'']"
    unfolding test_colors_log_lines [OF no_faults_quiet] by (simp add: log_entries_def)
  then show ?thesis using no_faults_quiet by (intro conjI)
qed

section \<open>Exit status of the two scripts without error handling\<close>

text \<open>
  Claim C8. A run of \<^verbatim>\<open>demo_output.py\<close> or of \<^verbatim>\<open>test_colors.py\<close> that meets no fault
  ends with exit status 0: \<^verbatim>\<open>main\<close> returns normally, no exception reaches the top
  level, and the module runs off its end without a call of \<^verbatim>\<open>sys.exit\<close>.
\<close>

theorem scripts_exit_zero:
  assumes "no_faults e s"
  shows "fst (demo_output_script e s) = Exit 0 \<and> fst (test_colors_script e s) = Exit 0"
proof -
  obtain s1 where "demo_output_main e s = (Inr (), s1)"
    using emits_runD [OF demo_output_emits assms] by blast
  moreover obtain s2 where "test_colors_main e s = (Inr (), s2)"
    using emits_runD [OF test_colors_emits assms] by blast
  ultimately show ?thesis
    by (simp add: demo_output_script_def test_colors_script_def run_module_def)
qed

theorem scripts_exit_zero_witness:
  "no_faults quiet_env start
   \<and> fst (demo_output_script quiet_env start) = Exit 0
   \<and> fst (test_colors_script quiet_env start) = Exit 0"
  using no_faults_quiet scripts_exit_zero [OF no_faults_quiet] by (intro conjI) blast+

section \<open>The task simulator\<close>

subsection \<open>Timestamps and log lines\<close>

declare strftime.simps [simp del]

lemma digit_mem: "k < 10 \<Longrightarrow> ''0123456789'' ! k \<in> set ''0123456789''"
  by (rule nth_mem) simp

lemma str_nat_digits: "set (str_nat n) \<subseteq> set ''0123456789''"
proof (induction n rule: str_nat.induct)
  case (1 n)
  show ?case
  proof (cases "n < 10")
    case True
    then show ?thesis using digit_mem [of n] by (subst str_nat.simps) simp
  next
    case False
    have "n mod 10 < 10" by simp
    then have "''0123456789'' ! (n mod 10) \<in> set ''0123456789''" by (rule digit_mem)
    then show ?thesis using False "1.IH" by (subst str_nat.simps) simp
  qed
qed

lemma zfill_digits: "set (zfill w (str_nat n)) \<subseteq> set ''0123456789''"
proof -
  have "set (zfill w (str_nat n)) \<subseteq> insert CHR ''0'' (set (str_nat n))"
    by (auto simp add: zfill_def)
  then show ?thesis using str_nat_digits [of n] by auto
qed

lemma strftime_stamp:
  "strftime t stamp_format =
     zfill 4 (str_nat (year t)) @ ''-'' @ zfill 2 (str_nat (month t)) @ ''-''
     @ zfill 2 (str_nat (day t)) @ '' '' @ zfill 2 (str_nat (hour t)) @ '':''
     @ zfill 2 (str_nat (minute t)) @ '':'' @ zfill 2 (str_nat (second t))"
  by (simp add: strftime.simps directive_def)

lemma strftime_no_bracket: "CHR '']'' \<notin> set (strftime t stamp_format)"
  unfolding strftime_stamp using zfill_digits by auto

lemma message_of_log: "message_of (''['' @ strftime t stamp_format @ ''] '' @ r) = r"
proof -
  have "dropWhile (\<lambda>c. c \<noteq> CHR '']'') (strftime t stamp_format @ ''] '' @ r) =
        dropWhile (\<lambda>c. c \<noteq> CHR '']'') (''] '' @ r)"
    by (rule dropWhile_append2) (use strftime_no_bracket in auto)
  then show ?thesis by (simp add: message_of_def)
qed

lemma skeleton_ev_log:
  "skeleton_ev (Write f (''['' @ strftime t stamp_format @ ''] '' @ r)) =
     (if take 9 r = ''WARNING: '' then [] else [Write f r])"
  by (simp only: skeleton_ev_def event.case is_warning_def message_of_log)

lemma warning_ev_log:
  "warning_ev (Write f (''['' @ strftime t stamp_format @ ''] '' @ r)) =
     (if take 9 r = ''WARNING: '' then [r] else [])"
  by (simp only: warning_ev_def event.case is_warning_def message_of_log)

lemma emits_log_message:
  assumes "\<And>t. f (Write Stdout (''['' @ strftime t stamp_format @ ''] '' @ (level @ '': '' @ message @ newline))) = W"
  shows "emits f e (log_message message level) () (\<lambda>_. W @ f (Flush Stdout)) 0"
  unfolding log_message_def
  apply (rule emits_now)
  apply (simp only: block.simps)
  apply (rule emits_eq)
    apply (rule emits_seq emits_py_print emits_flush emits_skip)+
  using assms apply (simp add: fun_eq_iff)
  apply simp
  done

lemma emits_log_skeleton:
  "emits skeleton_ev e (log_message message level) ()
     (\<lambda>_. if take 9 (level @ '': '' @ message @ newline) = ''WARNING: '' then []
          else [Write Stdout (level @ '': '' @ message @ newline)]) 0"
proof -
  have "emits skeleton_ev e (log_message message level) ()
     (\<lambda>_. (if take 9 (level @ '': '' @ message @ newline) = ''WARNING: '' then []
           else [Write Stdout (level @ '': '' @ message @ newline)]) @ skeleton_ev (Flush Stdout)) 0"
    by (rule emits_log_message) (rule skeleton_ev_log)
  then show ?thesis by (simp add: skeleton_ev_def)
qed

lemma emits_log1_skeleton:
  "emits skeleton_ev e (log_message1 message) () (\<lambda>_. [Write Stdout (''INFO: '' @ message @ newline)]) 0"
  unfolding log_message1_def by (rule emits_eq [OF emits_log_skeleton]) simp_all

lemma emits_warning_skeleton:
  "emits skeleton_ev e (log_message message ''WARNING'') () (\<lambda>_. []) 0"
  by (rule emits_eq [OF emits_log_skeleton]) simp_all

lemma emits_log_warnings:
  "emits warning_ev e (log_message message level) ()
     (\<lambda>_. if take 9 (level @ '': '' @ message @ newline) = ''WARNING: ''
          then [level @ '': '' @ message @ newline] else []) 0"
proof -
  have "emits warning_ev e (log_message message level) ()
     (\<lambda>_. (if take 9 (level @ '': '' @ message @ newline) = ''WARNING: ''
           then [level @ '': '' @ message @ newline] else []) @ warning_ev (Flush Stdout)) 0"
    by (rule emits_log_message) (rule warning_ev_log)
  then show ?thesis by (simp add: warning_ev_def)
qed

lemma emits_log1_warnings: "emits warning_ev e (log_message1 message) () (\<lambda>_. []) 0"
  unfolding log_message1_def by (rule emits_eq [OF emits_log_warnings]) simp_all

lemma emits_warning_warnings:
  "emits warning_ev e (log_message message ''WARNING'') () (\<lambda>_. [''WARNING: '' @ message @ newline]) 0"
  by (rule emits_eq [OF emits_log_warnings]) simp_all

lemma fmt_1f_tenths:
  "fmt_1f (of_int 0 / of_int 10 * 100) = ''0.0''"
  "fmt_1f (of_int 1 / of_int 10 * 100) = ''10.0''"
  "fmt_1f (of_int 2 / of_int 10 * 100) = ''20.0''"
  "fmt_1f (of_int 3 / of_int 10 * 100) = ''30.0''"
  "fmt_1f (of_int 4 / of_int 10 * 100) = ''40.0''"
  "fmt_1f (of_int 5 / of_int 10 * 100) = ''50.0''"
  "fmt_1f (of_int 6 / of_int 10 * 100) = ''60.0''"
  "fmt_1f (of_int 7 / of_int 10 * 100) = ''70.0''"
  "fmt_1f (of_int 8 / of_int 10 * 100) = ''80.0''"
  "fmt_1f (of_int 9 / of_int 10 * 100) = ''90.0''"
  "fmt_1f (of_int 10 / of_int 10 * 100) = ''100.0''"
  by (simp_all add: fmt_1f_def round_half_even_def Let_def str_eval)

lemma emits_sleep_skeleton: "emits skeleton_ev e (sleep d) () (\<lambda>_. [Sleep d]) 0"
  by (rule emits_eq [OF emits_sleep]) (simp_all add: skeleton_ev_def)

lemma emits_sleep_warnings: "emits warning_ev e (sleep d) () (\<lambda>_. []) 0"
  by (rule emits_eq [OF emits_sleep]) (simp_all add: warning_ev_def)

lemma simulate_work_skeleton:
  "emits skeleton_ev e (simulate_work duration task_name) ()
     (\<lambda>_. [Write Stdout (''INFO: Starting '' @ task_name @ newline)]
        @ concat (map (\<lambda>(i, p).
            Write Stdout (''INFO: '' @ task_name @ '' progress: '' @ p @ ''%'' @ newline)
            # (if i < 10 then [Sleep (of_int duration / 10)] else []))
            (zip [0..10] [''0.0'', ''10.0'', ''20.0'', ''30.0'', ''40.0'', ''50.0'',
                          ''60.0'', ''70.0'', ''80.0'', ''90.0'', ''100.0'']))
        @ [Write Stdout (''INFO: Completed '' @ task_name @ newline)]) 10"
  unfolding simulate_work_def Let_def py_range_def
  apply (simp add: upto.simps if_then_True if_then_False fmt_1f_tenths [simplified])
  apply (rule emits_eq)
    apply (rule emits_seq emits_skip emits_sleep_skeleton emits_log1_skeleton emits_warning_skeleton
      emits_random emits_if_then)+
   apply (simp add: fun_eq_iff)
  apply simp
  done

lemma upto_0_9: "[0..9] = [0, 1, 2, 3, 4, 5, 6, 7, 8, 9]"
  by (simp add: upto.simps)

lemma simulate_work_warnings:
  "emits warning_ev e (simulate_work duration task_name) ()
     (\<lambda>d. concat (map (\<lambda>i.
        if rnd e (d + nat i) < 1 / 10
        then [''WARNING: Minor issue in '' @ task_name @ '' (step '' @ str_int (i + 1) @ '')'' @ newline]
        else []) [0..9])) 10"
  unfolding simulate_work_def Let_def py_range_def
  apply (rule emits_eq)
    apply (simp add: upto.simps if_then_True if_then_False fmt_1f_tenths [simplified])
    apply (rule emits_seq emits_skip emits_sleep_warnings emits_log1_warnings emits_warning_warnings
      emits_random emits_if_then)+
   apply (simp add: fun_eq_iff upto_0_9 eval_nat_numeral cong: if_cong split del: if_split)
  apply simp
  done

lemma emits_log1_env_skeleton:
  "emits skeleton_ev e (\<lambda>e'. log_message1 (g e') e') () (\<lambda>_. [Write Stdout (''INFO: '' @ g e @ newline)]) 0"
  using emits_log1_skeleton [of e "g e"] by (simp add: emits_def)

lemma emits_try_except:
  "emits f e body v X m \<Longrightarrow> emits f e (try_except body handler) v X m"
proof (unfold emits_def, intro allI impI)
  fix s assume nf: "no_faults e s"
  assume a: "\<forall>s. no_faults e s \<longrightarrow>
        (\<exists>Y t. body e s = (Inr v, s\<lparr>trace := trace s @ Y, tick := t, draws := draws s + m\<rparr>)
             \<and> tick s \<le> t \<and> concat (map f Y) = X (draws s))"
  from a nf obtain Y t where
    1: "body e s = (Inr v, s\<lparr>trace := trace s @ Y, tick := t, draws := draws s + m\<rparr>)"
    and 2: "tick s \<le> t" and 3: "concat (map f Y) = X (draws s)"
    by blast
  have "try_except body handler e s = (Inr v, s\<lparr>trace := trace s @ Y, tick := t, draws := draws s + m\<rparr>)"
    using 1 by (simp add: try_except_def)
  then show "\<exists>Y t. try_except body handler e s =
      (Inr v, s\<lparr>trace := trace s @ Y, tick := t, draws := draws s + m\<rparr>)
      \<and> tick s \<le> t \<and> concat (map f Y) = X (draws s)"
    using 2 3 by blast
qed

lemma main_try_skeleton:
  "emits skeleton_ev e main_try 0
     (\<lambda>_. [Write Stdout (''INFO: Python example script starting'' @ newline),
           Write Stdout (''INFO: Python version: '' @ sys_version e @ newline)]
        @ concat (map (\<lambda>(task_name, duration).
            [Write Stdout (''INFO: Starting '' @ task_name @ newline)]
            @ concat (map (\<lambda>(i, p).
                Write Stdout (''INFO: '' @ task_name @ '' progress: '' @ p @ ''%'' @ newline)
                # (if i < 10 then [Sleep (of_int duration / 10)] else []))
                (zip [0..10] [''0.0'', ''10.0'', ''20.0'', ''30.0'', ''40.0'', ''50.0'',
                              ''60.0'', ''70.0'', ''80.0'', ''90.0'', ''100.0'']))
            @ [Write Stdout (''INFO: Completed '' @ task_name @ newline), Sleep (1 / 2)]) tasks)
        @ [Write Stdout (''INFO: All tasks completed successfully'' @ newline),
           Write Stdout (''INFO: Summary: 3 tasks executed, 0 errors'' @ newline)]) 30"
  unfolding main_try_def tasks_def
  apply (simp only: for_each.simps block.simps prod.case)
  apply (rule emits_eq)
    apply (rule emits_seq emits_skip emits_sleep_skeleton emits_log1_skeleton emits_log1_env_skeleton
      simulate_work_skeleton emits_return)+
   apply (simp add: fun_eq_iff)
  apply simp
  done

subsection \<open>The discipline of log\_message on every path\<close>

lemma log_discipline_append:
  "log_discipline a \<Longrightarrow> log_discipline b \<Longrightarrow> log_discipline (a @ b)"
  by (induction a rule: log_discipline.induct) simp_all

lemma disciplinedI:
  assumes "\<And>s. \<exists>Y. trace (snd (p e s)) = trace s @ Y \<and> log_discipline Y"
  shows "disciplined e p"
  using assms unfolding disciplined_def by blast

lemma disciplinedD:
  assumes "disciplined e p"
  shows "log_discipline (added p e s)" and "trace (snd (p e s)) = trace s @ added p e s"
proof -
  from assms obtain Y where 1: "trace (snd (p e s)) = trace s @ Y" and 2: "log_discipline Y"
    unfolding disciplined_def by blast
  have "added p e s = Y" using 1 by (simp add: added_def)
  then show "log_discipline (added p e s)" and "trace (snd (p e s)) = trace s @ added p e s"
    using 1 2 by simp_all
qed

lemma disciplined_return: "disciplined e (return v)"
  by (rule disciplinedI) (simp add: return_def)

lemma disciplined_skip: "disciplined e skip"
  unfolding skip_def by (rule disciplined_return)

lemma disciplined_bind:
  assumes m: "disciplined e m" and k: "\<And>v. disciplined e (k v)"
  shows "disciplined e (bind m k)"
proof (rule disciplinedI)
  fix s
  obtain r s1 where ms: "m e s = (r, s1)" by (cases "m e s")
  from disciplinedD [OF m, of s] ms
  have 1: "log_discipline (added m e s)" and 2: "trace s1 = trace s @ added m e s" by simp_all
  show "\<exists>Y. trace (snd (bind m k e s)) = trace s @ Y \<and> log_discipline Y"
  proof (cases r)
    case (Inl x)
    then have "trace (snd (bind m k e s)) = trace s @ added m e s"
      using ms 2 by (simp add: bind_def)
    then show ?thesis using 1 by blast
  next
    case (Inr v)
    from disciplinedD [OF k [of v], of s1]
    have 3: "log_discipline (added (k v) e s1)"
      and 4: "trace (snd (k v e s1)) = trace s1 @ added (k v) e s1" by simp_all
    have "trace (snd (bind m k e s)) = trace s @ (added m e s @ added (k v) e s1)"
      using ms Inr 2 4 by (simp add: bind_def)
    moreover have "log_discipline (added m e s @ added (k v) e s1)"
      using 1 3 by (rule log_discipline_append)
    ultimately show ?thesis by blast
  qed
qed

lemma disciplined_seq: "disciplined e a \<Longrightarrow> disciplined e b \<Longrightarrow> disciplined e (seq a b)"
  unfolding seq_def by (rule disciplined_bind)

lemma disciplined_for_each:
  "(\<And>x. x \<in> set xs \<Longrightarrow> disciplined e (body x)) \<Longrightarrow> disciplined e (for_each xs body)"
  by (induction xs) (simp_all add: disciplined_skip disciplined_seq)

lemma disciplined_if_then: "disciplined e a \<Longrightarrow> disciplined e (if_then c a)"
  by (simp add: if_then_def disciplined_skip)

lemma disciplined_try_except:
  assumes b: "disciplined e body" and h: "\<And>x. disciplined e (handler x)"
  shows "disciplined e (try_except body handler)"
proof (rule disciplinedI)
  fix s
  obtain r s1 where bs: "body e s = (r, s1)" by (cases "body e s")
  from disciplinedD [OF b, of s] bs
  have 1: "log_discipline (added body e s)" and 2: "trace s1 = trace s @ added body e s" by simp_all
  show "\<exists>Y. trace (snd (try_except body handler e s)) = trace s @ Y \<and> log_discipline Y"
  proof (cases r)
    case (Inr v)
    then have "trace (snd (try_except body handler e s)) = trace s @ added body e s"
      using bs 2 by (simp add: try_except_def)
    then show ?thesis using 1 by blast
  next
    case (Inl x)
    from disciplinedD [OF h [of x], of s1]
    have 3: "log_discipline (added (handler x) e s1)"
      and 4: "trace (snd (handler x e s1)) = trace s1 @ added (handler x) e s1" by simp_all
    have "trace (snd (try_except body handler e s)) = trace s @ (added body e s @ added (handler x) e s1)"
      using bs Inl 2 4 by (simp add: try_except_def)
    moreover have "log_discipline (added body e s @ added (handler x) e s1)"
      using 1 3 by (rule log_discipline_append)
    ultimately show ?thesis by blast
  qed
qed

lemma disciplined_sleep: "disciplined e (sleep d)"
  by (rule disciplinedI) (simp add: sleep_def emit_def attempt_def split: option.split)

lemma disciplined_random: "disciplined e random_random"
  by (rule disciplinedI) (simp add: random_random_def attempt_def split: option.split)

lemma str_nat_length: "0 < w \<Longrightarrow> n < 10 ^ w \<Longrightarrow> length (str_nat n) \<le> w"
proof (induction w arbitrary: n)
  case 0
  then show ?case by simp
next
  case (Suc w)
  show ?case
  proof (cases "n < 10")
    case True
    then show ?thesis by (subst str_nat.simps) simp
  next
    case False
    with Suc.prems have w: "0 < w" by (cases w) simp_all
    have "n div 10 < 10 ^ w" using Suc.prems by (simp add: less_mult_imp_div_less mult.commute)
    then have "length (str_nat (n div 10)) \<le> w" using w by (rule Suc.IH [rotated])
    then show ?thesis using False by (subst str_nat.simps) simp
  qed
qed

lemma shape_zfill:
  assumes "0 < w" and "n < 10 ^ w"
  shows "map digit_class (zfill w (str_nat n)) = replicate w CHR ''9''"
proof -
  have len: "length (str_nat n) \<le> w" using assms by (rule str_nat_length)
  have cls: "digit_class c = CHR ''9''" if "c \<in> set (zfill w (str_nat n))" for c
  proof -
    have "c \<in> set ''0123456789''" using zfill_digits that by (rule subsetD)
    then show ?thesis by (simp only: digit_class_def if_True)
  qed
  have "map digit_class (zfill w (str_nat n)) = map (\<lambda>_. CHR ''9'') (zfill w (str_nat n))"
    by (rule map_cong [OF refl]) (rule cls)
  also have "\<dots> = replicate (length (zfill w (str_nat n))) CHR ''9''"
    by (rule map_replicate_const)
  also have "length (zfill w (str_nat n)) = w" using len by (simp add: zfill_def)
  finally show ?thesis .
qed

lemma shape_zfill4:
  assumes "n \<le> 9999"
  shows "map digit_class (zfill 4 (str_nat n)) = ''9999''"
proof -
  have "replicate 4 CHR ''9'' = ''9999''" by (simp add: numeral_eq_Suc)
  moreover have "n < 10 ^ 4" using assms by simp
  ultimately show ?thesis using shape_zfill [of 4 n] by simp
qed

lemma shape_zfill2:
  assumes "n \<le> 59"
  shows "map digit_class (zfill 2 (str_nat n)) = ''99''"
proof -
  have "replicate 2 CHR ''9'' = ''99''" by (simp add: numeral_eq_Suc)
  moreover have "n < 10 ^ 2" using assms by simp
  ultimately show ?thesis using shape_zfill [of 2 n] by simp
qed

lemma digit_class_separators:
  "digit_class CHR ''-'' = CHR ''-''" "digit_class CHR '' '' = CHR '' ''" "digit_class CHR '':'' = CHR '':''"
  by (simp_all add: digit_class_def)

lemma timestamp_shape_strftime:
  assumes "valid_datetime t"
  shows "timestamp_shape (strftime t stamp_format)"
proof -
  have "year t \<le> 9999" and "month t \<le> 59" and "day t \<le> 59"
    and "hour t \<le> 59" and "minute t \<le> 59" and "second t \<le> 59"
    using assms by (simp_all add: valid_datetime_def)
  then show ?thesis
    unfolding timestamp_shape_def strftime_stamp
    by (simp add: shape_zfill4 shape_zfill2 digit_class_separators)
qed

lemma is_log_line_stamp:
  assumes "valid_datetime t" and "level \<in> {''INFO'', ''WARNING'', ''ERROR''}"
  shows "is_log_line ((''['' @ strftime t stamp_format @ ''] '' @ level @ '': '' @ message) @ newline)"
  unfolding is_log_line_def
  apply (rule exI [of _ "strftime t stamp_format"])
  apply (rule exI [of _ level])
  apply (rule exI [of _ message])
  using assms apply (simp add: timestamp_shape_strftime)
  done

lemma disciplined_log_message:
  assumes v: "\<forall>k. valid_datetime (now e k)" and l: "level \<in> {''INFO'', ''WARNING'', ''ERROR''}"
  shows "disciplined e (log_message message level)"
proof (rule disciplinedI)
  fix s :: state
  let ?l = "(''['' @ strftime (now e (tick s)) stamp_format @ ''] '' @ level @ '': '' @ message) @ newline"
  have line: "is_log_line ?l" using v l by (intro is_log_line_stamp) simp_all
  let ?run = "trace (snd (log_message message level e s))"
  consider (a) x where "fault e (tick s) = Some x"
    | (b) x where "fault e (tick s) = None" "fault e (Suc (tick s)) = Some x"
    | (c) x where "fault e (tick s) = None" "fault e (Suc (tick s)) = None"
        "fault e (Suc (Suc (tick s))) = Some x"
    | (d) "fault e (tick s) = None" "fault e (Suc (tick s)) = None"
        "fault e (Suc (Suc (tick s))) = None"
    by (cases "fault e (tick s)"; cases "fault e (Suc (tick s))"; cases "fault e (Suc (Suc (tick s)))") auto
  then show "\<exists>Y. ?run = trace s @ Y \<and> log_discipline Y"
  proof cases
    case a
    then have "?run = trace s @ [Raised x]"
      by (simp add: log_message_def bind_def datetime_now_def attempt_def)
    then show ?thesis by simp
  next
    case b
    then have "?run = trace s @ [Raised x]"
      by (simp add: log_message_def bind_def seq_def datetime_now_def attempt_def py_print_def
          print_to_def emit_def)
    then show ?thesis by simp
  next
    case c
    then have "?run = trace s @ [Write Stdout ?l, Raised x]"
      by (simp add: log_message_def bind_def seq_def datetime_now_def attempt_def py_print_def
          print_to_def emit_def flush_def)
    moreover have "log_discipline [Write Stdout ?l, Raised x]" using line by simp
    ultimately show ?thesis by blast
  next
    case d
    then have "?run = trace s @ [Write Stdout ?l, Flush Stdout]"
      by (simp add: log_message_def bind_def seq_def datetime_now_def attempt_def py_print_def
          print_to_def emit_def flush_def skip_def return_def)
    moreover have "log_discipline [Write Stdout ?l, Flush Stdout]" using line by simp
    ultimately show ?thesis by blast
  qed
qed

lemma disciplined_log_message1:
  "\<forall>k. valid_datetime (now e k) \<Longrightarrow> disciplined e (log_message1 message)"
  unfolding log_message1_def by (rule disciplined_log_message) simp_all

lemma disciplined_log_warning:
  "\<forall>k. valid_datetime (now e k) \<Longrightarrow> disciplined e (log_message message ''WARNING'')"
  by (rule disciplined_log_message) simp_all

lemma disciplined_log_message1_env:
  "\<forall>k. valid_datetime (now e k) \<Longrightarrow> disciplined e (\<lambda>e'. log_message1 (g e') e')"
  using disciplined_log_message1 [of e "g e"] by (simp add: disciplined_def)

lemma disciplined_simulate_work:
  assumes "\<forall>k. valid_datetime (now e k)"
  shows "disciplined e (simulate_work duration task_name)"
  unfolding simulate_work_def Let_def
  apply (simp only: block.simps)
  apply (intro disciplined_seq disciplined_skip disciplined_for_each disciplined_if_then
      disciplined_bind disciplined_random disciplined_sleep
      disciplined_log_message1 [OF assms] disciplined_log_warning [OF assms])
  done

lemma disciplined_main_try:
  assumes "\<forall>k. valid_datetime (now e k)"
  shows "disciplined e main_try"
  unfolding main_try_def tasks_def
  apply (simp only: for_each.simps block.simps prod.case)
  apply (intro disciplined_seq disciplined_skip disciplined_return disciplined_sleep
      disciplined_log_message1 [OF assms] disciplined_log_message1_env [OF assms]
      disciplined_simulate_work [OF assms])
  done

lemma disciplined_main_except:
  assumes "\<forall>k. valid_datetime (now e k)"
  shows "disciplined e (main_except x)"
proof (cases x)
  case KeyboardInterrupt
  then show ?thesis
    unfolding main_except_def
    by (simp add: disciplined_seq disciplined_return disciplined_log_message [OF assms])
next
  case (Exception msg)
  then show ?thesis
    unfolding main_except_def
    by (simp add: disciplined_seq disciplined_return disciplined_log_message [OF assms])
qed

lemma disciplined_example_task_main:
  assumes "\<forall>k. valid_datetime (now e k)"
  shows "disciplined e example_task_main"
  unfolding example_task_main_def
  by (rule disciplined_try_except) (rule disciplined_main_try [OF assms], rule disciplined_main_except [OF assms])

lemma example_task_main_skeleton:
  "emits skeleton_ev e example_task_main 0
     (\<lambda>_. [Write Stdout (''INFO: Python example script starting'' @ newline),
           Write Stdout (''INFO: Python version: '' @ sys_version e @ newline)]
        @ concat (map (\<lambda>(task_name, duration).
            [Write Stdout (''INFO: Starting '' @ task_name @ newline)]
            @ concat (map (\<lambda>(i, p).
                Write Stdout (''INFO: '' @ task_name @ '' progress: '' @ p @ ''%'' @ newline)
                # (if i < 10 then [Sleep (of_int duration / 10)] else []))
                (zip [0..10] [''0.0'', ''10.0'', ''20.0'', ''30.0'', ''40.0'', ''50.0'',
                              ''60.0'', ''70.0'', ''80.0'', ''90.0'', ''100.0'']))
            @ [Write Stdout (''INFO: Completed '' @ task_name @ newline), Sleep (1 / 2)]) tasks)
        @ [Write Stdout (''INFO: All tasks completed successfully'' @ newline),
           Write Stdout (''INFO: Summary: 3 tasks executed, 0 errors'' @ newline)]) 30"
  unfolding example_task_main_def by (rule emits_try_except) (rule main_try_skeleton)

lemma skeleton_keeps_raised: "Raised x \<in> set Y \<Longrightarrow> Raised x \<in> set (skeleton Y)"
  by (induction Y) (auto simp add: skeleton_def skeleton_ev_def split: event.splits)

lemma log_message_run:
  assumes "fault e (tick s) = None" and "fault e (Suc (tick s)) = None"
    and "fault e (Suc (Suc (tick s))) = None"
  shows "log_message message level e s =
     (Inr (), s\<lparr>trace := trace s @
        [Write Stdout (''['' @ strftime (now e (tick s)) stamp_format @ ''] '' @ level @ '': '' @ message @ newline),
         Flush Stdout], tick := tick s + 3\<rparr>)"
  using assms
  by (simp add: log_message_def bind_def seq_def datetime_now_def attempt_def py_print_def
      print_to_def emit_def flush_def skip_def return_def)

lemma emits_drawsD:
  assumes "emits f e p v X m" and "no_faults e s"
  shows "draws (snd (p e s)) = draws s + m"
  using assms unfolding emits_def by fastforce

lemma valid_noon: "valid_datetime noon"
  by (simp add: valid_datetime_def noon_def)

lemma valid_quiet: "\<forall>k. valid_datetime (now quiet_env k)"
  by (simp add: quiet_env_def valid_noon)

lemma upto_0_10: "[0..10] = [0, 1, 2, 3, 4, 5, 6, 7, 8, 9, 10]"
  by (simp add: upto.simps)

subsection \<open>Evaluating a run in a sample environment\<close>

lemma seq_run:
  "seq a b e s = (case a e s of (Inl x, s') \<Rightarrow> (Inl x, s') | (Inr v, s') \<Rightarrow> b e s')"
  by (simp add: seq_def bind_def)

lemma block_run: "block [] e s = (Inr (), s)" "block (a # as) e s = seq a (block as) e s"
  by (simp_all add: skip_def return_def)

lemma for_each_run:
  "for_each [] body e s = (Inr (), s)" "for_each (x # xs) body e s = seq (body x) (for_each xs body) e s"
  by (simp_all add: skip_def return_def)

lemma if_then_run: "if_then c a e s = (if c then a e s else (Inr (), s))"
  by (simp add: if_then_def skip_def return_def)

lemma emit_run:
  "emit ev e s =
     (case fault e (tick s) of
        Some x \<Rightarrow> (Inl x, s\<lparr>trace := trace s @ [Raised x], tick := Suc (tick s)\<rparr>)
      | None \<Rightarrow> (Inr (), s\<lparr>trace := trace s @ [ev], tick := Suc (tick s)\<rparr>))"
  by (simp add: emit_def attempt_def)

lemma log_message_run_cases:
  "log_message message level e s =
     bind datetime_now (\<lambda>t. block [
       py_print (''['' @ strftime t stamp_format @ ''] '' @ level @ '': '' @ message),
       flush Stdout]) e s"
  by (simp add: log_message_def)

lemmas run_eval = bind_def seq_run block_run for_each_run if_then_run emit_run return_def skip_def
  print_to_def py_print_def flush_def sleep_def datetime_now_def random_random_def attempt_def
  log_message_run_cases log_message1_def
  simulate_work_def [THEN fun_cong, THEN fun_cong] main_try_def [THEN fun_cong, THEN fun_cong]

lemma strftime_noon: "strftime noon stamp_format = ''2024-03-09 12:00:05''"
  by (simp add: strftime_stamp zfill_def noon_def str_eval)



lemma no_faults_other: "no_faults other_env start"
  by (simp add: no_faults_def other_env_def quiet_env_def)

subsection \<open>One step of the loop, and the trace without timestamps\<close>

lemma simulate_work_steps:
  "simulate_work duration task_name = block [
     log_message1 (''Starting '' @ task_name),
     for_each (py_range 0 11) (simulate_step (of_int duration / 10) task_name 10),
     log_message1 (''Completed '' @ task_name)]"
  unfolding simulate_work_def Let_def simulate_step_def by simp

lemma untimed_ev_log:
  "untimed_ev (Write f (''['' @ strftime t stamp_format @ ''] '' @ r)) = [Write f r]"
  by (simp only: untimed_ev_def event.case message_of_log)

lemma emits_log_untimed:
  "emits untimed_ev e (log_message message level) ()
     (\<lambda>_. [Write Stdout (level @ '': '' @ message @ newline), Flush Stdout]) 0"
proof -
  have "emits untimed_ev e (log_message message level) ()
     (\<lambda>_. [Write Stdout (level @ '': '' @ message @ newline)] @ untimed_ev (Flush Stdout)) 0"
    by (rule emits_log_message) (rule untimed_ev_log)
  then show ?thesis by (simp add: untimed_ev_def)
qed

lemma emits_log1_untimed:
  "emits untimed_ev e (log_message1 message) ()
     (\<lambda>_. [Write Stdout (''INFO: '' @ message @ newline), Flush Stdout]) 0"
  unfolding log_message1_def by (rule emits_eq [OF emits_log_untimed]) simp_all

lemma emits_sleep_untimed: "emits untimed_ev e (sleep d) () (\<lambda>_. [Sleep d]) 0"
  by (rule emits_eq [OF emits_sleep]) (simp_all add: untimed_ev_def)

lemma simulate_work_untimed:
  "emits untimed_ev e (simulate_work duration task_name) ()
     (\<lambda>d. [Write Stdout (''INFO: Starting '' @ task_name @ newline), Flush Stdout]
        @ concat (map (\<lambda>i.
            [Write Stdout (''INFO: '' @ task_name @ '' progress: ''
                           @ fmt_1f (of_int i / of_int 10 * 100) @ ''%'' @ newline),
             Flush Stdout]
            @ (if i < 10
               then Sleep (of_int duration / 10)
                    # (if rnd e (d + nat i) < 1 / 10
                       then [Write Stdout (''WARNING: Minor issue in '' @ task_name
                                           @ '' (step '' @ str_int (i + 1) @ '')'' @ newline),
                             Flush Stdout]
                       else [])
               else [])) [0..10])
        @ [Write Stdout (''INFO: Completed '' @ task_name @ newline), Flush Stdout]) 10"
  unfolding simulate_work_def Let_def py_range_def
  apply (rule emits_eq)
    apply (simp add: upto.simps if_then_True if_then_False fmt_1f_tenths [simplified])
    apply (rule emits_seq emits_skip emits_sleep_untimed emits_log1_untimed emits_log_untimed
      emits_random emits_if_then)+
   apply (simp add: fun_eq_iff upto_0_10 eval_nat_numeral fmt_1f_tenths [simplified]
      cong: if_cong split del: if_split)
  apply simp
  done

lemma simulate_step_run:
  assumes nf: "no_faults e s"
  shows "i < steps \<Longrightarrow> simulate_step sd task_name steps i e s =
      (Inr (), s\<lparr>trace := trace s @
         [Write Stdout (''['' @ strftime (now e (tick s)) stamp_format @ ''] INFO: '' @ task_name
                        @ '' progress: '' @ fmt_1f (of_int i / of_int steps * 100) @ ''%'' @ newline),
          Flush Stdout,
          Sleep sd]
         @ (if rnd e (draws s) < 1 / 10
            then [Write Stdout (''['' @ strftime (now e (tick s + 5)) stamp_format
                                @ ''] WARNING: Minor issue in '' @ task_name
                                @ '' (step '' @ str_int (i + 1) @ '')'' @ newline),
                  Flush Stdout]
            else []),
         tick := tick s + (if rnd e (draws s) < 1 / 10 then 8 else 5),
         draws := draws s + 1\<rparr>)"
    and "\<not> i < steps \<Longrightarrow> simulate_step sd task_name steps i e s =
      (Inr (), s\<lparr>trace := trace s @
         [Write Stdout (''['' @ strftime (now e (tick s)) stamp_format @ ''] INFO: '' @ task_name
                        @ '' progress: '' @ fmt_1f (of_int i / of_int steps * 100) @ ''%'' @ newline),
          Flush Stdout],
         tick := tick s + 3\<rparr>)"
proof -
  have f: "fault e k = None" if "tick s \<le> k" for k
    using nf that by (simp add: no_faults_def)
  show "simulate_step sd task_name steps i e s =
      (Inr (), s\<lparr>trace := trace s @
         [Write Stdout (''['' @ strftime (now e (tick s)) stamp_format @ ''] INFO: '' @ task_name
                        @ '' progress: '' @ fmt_1f (of_int i / of_int steps * 100) @ ''%'' @ newline),
          Flush Stdout,
          Sleep sd]
         @ (if rnd e (draws s) < 1 / 10
            then [Write Stdout (''['' @ strftime (now e (tick s + 5)) stamp_format
                                @ ''] WARNING: Minor issue in '' @ task_name
                                @ '' (step '' @ str_int (i + 1) @ '')'' @ newline),
                  Flush Stdout]
            else []),
         tick := tick s + (if rnd e (draws s) < 1 / 10 then 8 else 5),
         draws := draws s + 1\<rparr>)" if "i < steps"
  proof (cases "rnd e (draws s) < 1 / 10")
    case True
    then show ?thesis using that
      by (simp add: simulate_step_def run_eval f eval_nat_numeral cong: prod.case_cong_weak)
  next
    case False
    then show ?thesis using that
      by (simp add: simulate_step_def run_eval f eval_nat_numeral cong: prod.case_cong_weak)
  qed
  show "simulate_step sd task_name steps i e s =
      (Inr (), s\<lparr>trace := trace s @
         [Write Stdout (''['' @ strftime (now e (tick s)) stamp_format @ ''] INFO: '' @ task_name
                        @ '' progress: '' @ fmt_1f (of_int i / of_int steps * 100) @ ''%'' @ newline),
          Flush Stdout],
         tick := tick s + 3\<rparr>)" if "\<not> i < steps"
    using that by (simp add: simulate_step_def run_eval f eval_nat_numeral cong: prod.case_cong_weak)
qed

lemma no_faults_drawn: "no_faults quiet_env (start\<lparr>draws := 2\<rparr>)"
  by (simp add: no_faults_def quiet_env_def)

subsection \<open>Flushes and physical lines\<close>

lemma flushed_lines_discipline:
  "log_discipline tr \<Longrightarrow> \<forall>x. Raised x \<notin> set tr \<Longrightarrow> flushed_lines tr"
  by (induction tr rule: log_discipline.induct) auto

lemma written_discipline:
  "log_discipline tr \<Longrightarrow> list_all is_log_line (written Stdout tr) \<and> written Stderr tr = []"
  by (induction tr rule: log_discipline.induct) (simp_all add: written_def written_ev_def)

lemma strftime_no_newline: "CHR 0x0A \<notin> set (strftime t stamp_format)"
  unfolding strftime_stamp using zfill_digits by auto

lemma broken_ev_log:
  "broken_ev (Write f (''['' @ strftime t stamp_format @ ''] '' @ (level @ '': '' @ message @ newline))) =
     (if CHR 0x0A \<in> set (level @ '': '' @ message) then [()] else [])"
proof -
  have "butlast (''['' @ strftime t stamp_format @ ''] '' @ (level @ '': '' @ message @ newline)) =
      ''['' @ strftime t stamp_format @ ''] '' @ level @ '': '' @ message"
    by (simp add: butlast_append)
  then show ?thesis using strftime_no_newline [of t] by (simp add: broken_ev_def)
qed

lemma emits_log_broken:
  "emits broken_ev e (log_message message level) ()
     (\<lambda>_. if CHR 0x0A \<in> set (level @ '': '' @ message) then [()] else []) 0"
proof -
  have "emits broken_ev e (log_message message level) ()
     (\<lambda>_. (if CHR 0x0A \<in> set (level @ '': '' @ message) then [()] else []) @ broken_ev (Flush Stdout)) 0"
    by (rule emits_log_message) (rule broken_ev_log)
  then show ?thesis by (simp add: broken_ev_def)
qed

lemma emits_log1_broken:
  "emits broken_ev e (log_message1 message) ()
     (\<lambda>_. if CHR 0x0A \<in> set message then [()] else []) 0"
  unfolding log_message1_def by (rule emits_eq [OF emits_log_broken]) simp_all

lemma emits_log1_env_broken:
  "emits broken_ev e (\<lambda>e'. log_message1 (g e') e') ()
     (\<lambda>_. if CHR 0x0A \<in> set (g e) then [()] else []) 0"
  using emits_log1_broken [of e "g e"] by (simp add: emits_def)

lemma emits_sleep_broken: "emits broken_ev e (sleep d) () (\<lambda>_. []) 0"
  by (rule emits_eq [OF emits_sleep]) (simp_all add: broken_ev_def)

lemma str_int_no_newline: "CHR 0x0A \<notin> set (str_int i)"
  using str_nat_digits by (auto simp add: str_int_def)

lemma simulate_work_broken:
  assumes "CHR 0x0A \<notin> set task_name"
  shows "emits broken_ev e (simulate_work duration task_name) () (\<lambda>_. []) 10"
  unfolding simulate_work_def Let_def py_range_def
  apply (rule emits_eq)
    apply (simp add: upto.simps if_then_True if_then_False fmt_1f_tenths [simplified])
    apply (rule emits_seq emits_skip emits_sleep_broken emits_log1_broken emits_log_broken
      emits_random emits_if_then)+
   apply (simp add: fun_eq_iff assms str_int_no_newline cong: if_cong split del: if_split)
  apply simp
  done

lemma example_task_main_broken:
  assumes "CHR 0x0A \<notin> set (sys_version e)"
  shows "emits broken_ev e example_task_main 0 (\<lambda>_. []) 30"
  unfolding example_task_main_def
  apply (rule emits_try_except)
  unfolding main_try_def tasks_def
  apply (simp only: for_each.simps block.simps prod.case)
  apply (rule emits_eq)
    apply (rule emits_seq emits_skip emits_sleep_broken emits_log1_broken emits_log1_env_broken
      simulate_work_broken emits_return | simp)+
   apply (simp add: fun_eq_iff assms)
  apply simp
  done

lemma broken_ev_none:
  "broken_ev ev = [] \<Longrightarrow> w \<in> set (written_ev f ev) \<Longrightarrow> CHR 0x0A \<notin> set (butlast w)"
  by (cases ev) (simp_all add: broken_ev_def written_ev_def split: if_splits)

lemma broken_none:
  "concat (map broken_ev Y) = [] \<Longrightarrow> \<forall>w\<in>set (written Stdout Y). CHR 0x0A \<notin> set (butlast w)"
proof (induction Y)
  case Nil
  then show ?case by (simp add: written_def)
next
  case (Cons ev Y)
  then have 1: "broken_ev ev = []" and 2: "concat (map broken_ev Y) = []" by simp_all
  have 3: "\<forall>w\<in>set (written Stdout Y). CHR 0x0A \<notin> set (butlast w)" using Cons.IH 2 by blast
  have 4: "\<forall>w\<in>set (written_ev Stdout ev). CHR 0x0A \<notin> set (butlast w)"
    using broken_ev_none [OF 1] by blast
  have "set (written Stdout (ev # Y)) = set (written_ev Stdout ev) \<union> set (written Stdout Y)"
    by (simp add: written_def)
  then show ?case using 3 4 by blast
qed

lemma single_log_line_butlast:
  assumes "is_log_line w" and "CHR 0x0A \<notin> set (butlast w)"
  shows "w = butlast w @ newline" and "is_single_log_line (butlast w)"
proof -
  from assms(1) obtain ts level message where
    w: "w = (''['' @ ts @ ''] '' @ level @ '': '' @ message) @ newline"
    and ts: "timestamp_shape ts" and l: "level \<in> {''INFO'', ''WARNING'', ''ERROR''}"
    unfolding is_log_line_def by auto
  have b: "butlast w = ''['' @ ts @ ''] '' @ level @ '': '' @ message"
    unfolding w by (rule butlast_snoc)
  show "w = butlast w @ newline" unfolding b using w by simp
  have "CHR 0x0A \<notin> set message" using assms(2) unfolding b by simp
  then show "is_single_log_line (butlast w)"
    unfolding b is_single_log_line_def using ts l by blast
qed

lemma single_lines:
  assumes d: "list_all is_log_line ws" and n: "\<forall>w\<in>set ws. CHR 0x0A \<notin> set (butlast w)"
  shows "list_all is_single_log_line (split_lines (concat ws))"
proof -
  have each: "w = butlast w @ newline \<and> is_single_log_line (butlast w)" if "w \<in> set ws" for w
    using single_log_line_butlast [of w] d n that by (simp add: list_all_iff)
  have "map (\<lambda>b. b @ newline) (map butlast ws) = ws"
    using each by (simp add: map_idI)
  then have "split_lines (concat ws) = split_lines (concat (map (\<lambda>b. b @ newline) (map butlast ws)))"
    by simp
  also have "\<dots> = map butlast ws"
    by (rule split_lines_concat) (use n in simp)
  finally show ?thesis using each by (simp add: list_all_iff)
qed

lemma timestamp_shape_length: "timestamp_shape ts \<Longrightarrow> length ts = 19"
proof -
  assume "timestamp_shape ts"
  then have "length (map digit_class ts) = length ''9999-99-99 99:99:99''"
    unfolding timestamp_shape_def by (rule arg_cong)
  then show ?thesis by simp
qed

lemma single_log_line_length: "is_single_log_line l \<Longrightarrow> 22 \<le> length l"
  unfolding is_single_log_line_def using timestamp_shape_length by auto

lemma try_except_run:
  "try_except body handler e s =
     (case body e s of (Inl x, s') \<Rightarrow> handler x e s' | (Inr v, s') \<Rightarrow> (Inr v, s'))"
  by (rule try_except_def)

lemma main_struck_flush:
  "example_task_main struck_flush_env start =
     (Inr 130,
      \<lparr>trace =
         [Write Stdout (''[2024-03-09 12:00:05] INFO: Python example script starting'' @ newline),
          Raised KeyboardInterrupt,
          Write Stdout (''[2024-03-09 12:00:05] WARNING: Script interrupted by user'' @ newline),
          Flush Stdout],
       tick = 6, draws = 0\<rparr>)"
  by (simp add: example_task_main_def try_except_run main_except_def run_eval tasks_def py_range_def
      Let_def struck_flush_env_def quiet_env_def start_def strftime_noon
      cong: prod.case_cong_weak)

lemma main_two_line_version:
  "example_task_main two_line_version_env start =
     (Inr 130,
      \<lparr>trace =
         [Write Stdout (''[2024-03-09 12:00:05] INFO: Python example script starting'' @ newline),
          Flush Stdout,
          Write Stdout (''[2024-03-09 12:00:05] INFO: Python version: 3.8.10 (default, Nov 22 2023) ''
                        @ newline @ ''[GCC 9.4.0]'' @ newline),
          Flush Stdout,
          Raised KeyboardInterrupt,
          Write Stdout (''[2024-03-09 12:00:05] WARNING: Script interrupted by user'' @ newline),
          Flush Stdout],
       tick = 10, draws = 0\<rparr>)"
  by (simp add: example_task_main_def try_except_run main_except_def run_eval tasks_def py_range_def
      Let_def two_line_version_env_def quiet_env_def start_def strftime_noon
      cong: prod.case_cong_weak)

subsection \<open>Progress lines and sleeps\<close>

text \<open>
  Claim C5. The task list holds three tasks, and for every task (name, duration) of it,
  in a run that meets no fault, \<^verbatim>\<open>simulate_work\<close> prints (warnings, timestamps and flushes
  left aside) the starting line, then eleven progress lines whose percentages are exactly
  0.0, 10.0, ..., 100.0 with one decimal place, with a sleep of duration/10 after each of
  the first ten (ten sleeps, none after the last), then the completion line. Every line it
  writes is a log line, hence begins with a bracketed timestamp (for a clock that returns
  valid dates).
\<close>

theorem simulate_work_progress:
  "length tasks = 3 \<and>
   (\<forall>(task_name, duration) \<in> set tasks. \<forall>e s. no_faults e s \<longrightarrow>
      skeleton (added (simulate_work duration task_name) e s) =
        [Write Stdout (''INFO: Starting '' @ task_name @ newline)]
        @ concat (map (\<lambda>(i, p).
            Write Stdout (''INFO: '' @ task_name @ '' progress: '' @ p @ ''%'' @ newline)
            # (if i < 10 then [Sleep (of_int duration / 10)] else []))
            (zip [0..10] [''0.0'', ''10.0'', ''20.0'', ''30.0'', ''40.0'', ''50.0'',
                          ''60.0'', ''70.0'', ''80.0'', ''90.0'', ''100.0'']))
        @ [Write Stdout (''INFO: Completed '' @ task_name @ newline)]
      \<and> ((\<forall>k. valid_datetime (now e k)) \<longrightarrow>
           log_discipline (added (simulate_work duration task_name) e s)))"
proof -
  have 1: "length tasks = 3" by (simp add: tasks_def)
  have 2: "skeleton (added (simulate_work duration task_name) e s) =
        [Write Stdout (''INFO: Starting '' @ task_name @ newline)]
        @ concat (map (\<lambda>(i, p).
            Write Stdout (''INFO: '' @ task_name @ '' progress: '' @ p @ ''%'' @ newline)
            # (if i < 10 then [Sleep (of_int duration / 10)] else []))
            (zip [0..10] [''0.0'', ''10.0'', ''20.0'', ''30.0'', ''40.0'', ''50.0'',
                          ''60.0'', ''70.0'', ''80.0'', ''90.0'', ''100.0'']))
        @ [Write Stdout (''INFO: Completed '' @ task_name @ newline)]"
    if "no_faults e s" for duration task_name e s
    unfolding skeleton_def by (rule emitsD(2) [OF simulate_work_skeleton that])
  have 3: "log_discipline (added (simulate_work duration task_name) e s)"
    if "\<forall>k. valid_datetime (now e k)" for duration task_name e and s :: state
    by (rule disciplinedD(1) [OF disciplined_simulate_work [OF that]])
  show ?thesis using 1 2 3 by blast
qed

theorem simulate_work_progress_witness:
  "(''Data Processing'', 3) \<in> set tasks
   \<and> no_faults quiet_env start
   \<and> take 4 (skeleton (added (simulate_work 3 ''Data Processing'') quiet_env start)) =
       [Write Stdout (''INFO: Starting Data Processing'' @ newline),
        Write Stdout (''INFO: Data Processing progress: 0.0%'' @ newline),
        Sleep (3 / 10),
        Write Stdout (''INFO: Data Processing progress: 10.0%'' @ newline)]
   \<and> length (skeleton (added (simulate_work 3 ''Data Processing'') quiet_env start)) = 23
   \<and> log_discipline (added (simulate_work 3 ''Data Processing'') quiet_env start)"
proof -
  have m: "(''Data Processing'', 3) \<in> set tasks" by (simp add: tasks_def)
  note w = simulate_work_progress [THEN conjunct2, THEN bspec, OF m, simplified prod.case,
      rule_format, OF no_faults_quiet]
  have 1: "take 4 (skeleton (added (simulate_work 3 ''Data Processing'') quiet_env start)) =
       [Write Stdout (''INFO: Starting Data Processing'' @ newline),
        Write Stdout (''INFO: Data Processing progress: 0.0%'' @ newline),
        Sleep (3 / 10),
        Write Stdout (''INFO: Data Processing progress: 10.0%'' @ newline)]"
    unfolding w [THEN conjunct1] by (simp add: upto_0_10)
  have 2: "length (skeleton (added (simulate_work 3 ''Data Processing'') quiet_env start)) = 23"
    unfolding w [THEN conjunct1] by (simp add: upto_0_10)
  have 3: "log_discipline (added (simulate_work 3 ''Data Processing'') quiet_env start)"
    using w [THEN conjunct2] valid_quiet by blast
  show ?thesis using m no_faults_quiet 1 2 3 by (intro conjI)
qed

subsection \<open>Warning lines\<close>

text \<open>
  Claim C6. With the draws of \<^verbatim>\<open>random.random()\<close> taken as input, in a run that meets no
  fault. \<^verbatim>\<open>simulate_work\<close> is the loop of \<open>simulate_step\<close> over the steps 0 to 10,
  between its first and its last line. One step \<open>i\<close> below 10, run from any state, does
  exactly this: it writes its progress line and flushes, sleeps, makes one draw (the next
  of the generator), and, exactly when that draw is below 0.1, writes a WARNING line that
  names the task and the step number \<open>i + 1\<close> and flushes it; nothing else. The last step
  writes its progress line only and draws nothing. Over the whole call, with the
  timestamps cut off, the trace is the starting line, the eleven steps in order, each
  warning standing right after the sleep of its own step and before the next progress
  line, and the completion line; step \<open>i\<close> uses draw number \<open>i\<close> of the call, ten draws in
  all. (A draw is a multiple of 2 to the power -53; no such multiple lies between one
  tenth and the float nearest to it, so comparing with the rational one tenth is exact.)
\<close>

theorem simulate_work_warning_lines:
  assumes "no_faults e s"
  shows "simulate_work duration task_name = block [
           log_message1 (''Starting '' @ task_name),
           for_each (py_range 0 11) (simulate_step (of_int duration / 10) task_name 10),
           log_message1 (''Completed '' @ task_name)]
    \<and> (i < 10 \<longrightarrow>
         fst (simulate_step (of_int duration / 10) task_name 10 i e s) = Inr ()
         \<and> added (simulate_step (of_int duration / 10) task_name 10 i) e s =
             [Write Stdout (''['' @ strftime (now e (tick s)) stamp_format @ ''] INFO: '' @ task_name
                            @ '' progress: '' @ fmt_1f (of_int i / of_int 10 * 100) @ ''%'' @ newline),
              Flush Stdout,
              Sleep (of_int duration / 10)]
             @ (if rnd e (draws s) < 1 / 10
                then [Write Stdout (''['' @ strftime (now e (tick s + 5)) stamp_format
                                    @ ''] WARNING: Minor issue in '' @ task_name
                                    @ '' (step '' @ str_int (i + 1) @ '')'' @ newline),
                      Flush Stdout]
                else [])
         \<and> draws (snd (simulate_step (of_int duration / 10) task_name 10 i e s)) = draws s + 1)
    \<and> (\<not> i < 10 \<longrightarrow>
         fst (simulate_step (of_int duration / 10) task_name 10 i e s) = Inr ()
         \<and> added (simulate_step (of_int duration / 10) task_name 10 i) e s =
             [Write Stdout (''['' @ strftime (now e (tick s)) stamp_format @ ''] INFO: '' @ task_name
                            @ '' progress: '' @ fmt_1f (of_int i / of_int 10 * 100) @ ''%'' @ newline),
              Flush Stdout]
         \<and> draws (snd (simulate_step (of_int duration / 10) task_name 10 i e s)) = draws s)
    \<and> untimed (added (simulate_work duration task_name) e s) =
        [Write Stdout (''INFO: Starting '' @ task_name @ newline), Flush Stdout]
        @ concat (map (\<lambda>i.
            [Write Stdout (''INFO: '' @ task_name @ '' progress: ''
                           @ fmt_1f (of_int i / of_int 10 * 100) @ ''%'' @ newline),
             Flush Stdout]
            @ (if i < 10
               then Sleep (of_int duration / 10)
                    # (if rnd e (draws s + nat i) < 1 / 10
                       then [Write Stdout (''WARNING: Minor issue in '' @ task_name
                                           @ '' (step '' @ str_int (i + 1) @ '')'' @ newline),
                             Flush Stdout]
                       else [])
               else [])) [0..10])
        @ [Write Stdout (''INFO: Completed '' @ task_name @ newline), Flush Stdout]
    \<and> warnings (added (simulate_work duration task_name) e s) =
        concat (map (\<lambda>i.
          if rnd e (draws s + nat i) < 1 / 10
          then [''WARNING: Minor issue in '' @ task_name @ '' (step '' @ str_int (i + 1) @ '')'' @ newline]
          else []) [0..9])
    \<and> draws (snd (simulate_work duration task_name e s)) = draws s + 10"
proof -
  note a = simulate_step_run(1) [OF assms, of i 10 "of_int duration / 10" task_name]
  note b = simulate_step_run(2) [OF assms, of i 10 "of_int duration / 10" task_name]
  have 2: "fst (simulate_step (of_int duration / 10) task_name 10 i e s) = Inr ()
         \<and> added (simulate_step (of_int duration / 10) task_name 10 i) e s =
             [Write Stdout (''['' @ strftime (now e (tick s)) stamp_format @ ''] INFO: '' @ task_name
                            @ '' progress: '' @ fmt_1f (of_int i / of_int 10 * 100) @ ''%'' @ newline),
              Flush Stdout,
              Sleep (of_int duration / 10)]
             @ (if rnd e (draws s) < 1 / 10
                then [Write Stdout (''['' @ strftime (now e (tick s + 5)) stamp_format
                                    @ ''] WARNING: Minor issue in '' @ task_name
                                    @ '' (step '' @ str_int (i + 1) @ '')'' @ newline),
                      Flush Stdout]
                else [])
         \<and> draws (snd (simulate_step (of_int duration / 10) task_name 10 i e s)) = draws s + 1"
    if "i < 10"
    unfolding added_def a [OF that] by simp
  have 3: "fst (simulate_step (of_int duration / 10) task_name 10 i e s) = Inr ()
         \<and> added (simulate_step (of_int duration / 10) task_name 10 i) e s =
             [Write Stdout (''['' @ strftime (now e (tick s)) stamp_format @ ''] INFO: '' @ task_name
                            @ '' progress: '' @ fmt_1f (of_int i / of_int 10 * 100) @ ''%'' @ newline),
              Flush Stdout]
         \<and> draws (snd (simulate_step (of_int duration / 10) task_name 10 i e s)) = draws s"
    if "\<not> i < 10"
    unfolding added_def b [OF that] by simp
  note 4 = emitsD(2) [OF simulate_work_untimed assms, folded untimed_def]
  note 5 = emitsD(2) [OF simulate_work_warnings assms, folded warnings_def]
  note 6 = emits_drawsD [OF simulate_work_warnings assms]
  show ?thesis
    apply (intro conjI)
         apply (rule simulate_work_steps)
        apply (rule impI, erule 2)
       apply (rule impI, erule 3)
      apply (rule 4)
     apply (rule 5)
    apply (rule 6)
    done
qed

theorem simulate_work_warning_lines_witness:
  "no_faults quiet_env start
   \<and> no_faults quiet_env (start\<lparr>draws := 2\<rparr>)
   \<and> rnd quiet_env 2 < 1 / 10
   \<and> added (simulate_step (of_int 3 / 10) ''Data Processing'' 10 2) quiet_env (start\<lparr>draws := 2\<rparr>) =
       [Write Stdout (''[2024-03-09 12:00:05] INFO: Data Processing progress: 20.0%'' @ newline),
        Flush Stdout,
        Sleep (3 / 10),
        Write Stdout (''[2024-03-09 12:00:05] WARNING: Minor issue in Data Processing (step 3)'' @ newline),
        Flush Stdout]
   \<and> take 6 (drop 8 (untimed (added (simulate_work 3 ''Data Processing'') quiet_env start))) =
       [Write Stdout (''INFO: Data Processing progress: 20.0%'' @ newline),
        Flush Stdout,
        Sleep (3 / 10),
        Write Stdout (''WARNING: Minor issue in Data Processing (step 3)'' @ newline),
        Flush Stdout,
        Write Stdout (''INFO: Data Processing progress: 30.0%'' @ newline)]
   \<and> warnings (added (simulate_work 3 ''Data Processing'') quiet_env start) =
       [''WARNING: Minor issue in Data Processing (step 3)'' @ newline]
   \<and> draws (snd (simulate_work 3 ''Data Processing'' quiet_env start)) = 10"
proof -
  note w = simulate_work_warning_lines [OF no_faults_quiet, of 3 "''Data Processing''" 2]
  note v = simulate_work_warning_lines [OF no_faults_drawn, of 3 "''Data Processing''" 2]
  have 0: "added (simulate_step (of_int 3 / 10) ''Data Processing'' 10 2) quiet_env (start\<lparr>draws := 2\<rparr>) =
       [Write Stdout (''[2024-03-09 12:00:05] INFO: Data Processing progress: 20.0%'' @ newline),
        Flush Stdout,
        Sleep (3 / 10),
        Write Stdout (''[2024-03-09 12:00:05] WARNING: Minor issue in Data Processing (step 3)'' @ newline),
        Flush Stdout]"
    using v [THEN conjunct2, THEN conjunct1]
    by (simp add: quiet_env_def start_def strftime_noon str_eval fmt_1f_tenths [simplified])
  have 1: "take 6 (drop 8 (untimed (added (simulate_work 3 ''Data Processing'') quiet_env start))) =
       [Write Stdout (''INFO: Data Processing progress: 20.0%'' @ newline),
        Flush Stdout,
        Sleep (3 / 10),
        Write Stdout (''WARNING: Minor issue in Data Processing (step 3)'' @ newline),
        Flush Stdout,
        Write Stdout (''INFO: Data Processing progress: 30.0%'' @ newline)]"
    unfolding w [THEN conjunct2, THEN conjunct2, THEN conjunct2, THEN conjunct1]
    by (simp add: upto_0_10 quiet_env_def start_def str_eval fmt_1f_tenths [simplified])
  have 2: "warnings (added (simulate_work 3 ''Data Processing'') quiet_env start) =
       [''WARNING: Minor issue in Data Processing (step 3)'' @ newline]"
    unfolding w [THEN conjunct2, THEN conjunct2, THEN conjunct2, THEN conjunct2, THEN conjunct1]
    by (simp add: upto_0_9 quiet_env_def start_def str_eval)
  have 3: "draws (snd (simulate_work 3 ''Data Processing'' quiet_env start)) = 10"
    using w [THEN conjunct2, THEN conjunct2, THEN conjunct2, THEN conjunct2, THEN conjunct2]
    by (simp add: start_def)
  have 4: "rnd quiet_env 2 < 1 / 10" by (simp add: quiet_env_def)
  show ?thesis using no_faults_quiet no_faults_drawn 4 0 1 2 3 by (intro conjI)
qed

subsection \<open>Format and flushing of every line\<close>

text \<open>
  Claim C9, as stated: on every control path every output line has the format
  \<^verbatim>\<open>[YYYY-MM-DD HH:MM:SS] LEVEL: message\<close> and standard output is flushed right after it.
  Two runs refute it. When Ctrl+C strikes the flush of the first line, that line is
  followed by the raise and then by the handler's line, not by its flush, and \<^verbatim>\<open>main\<close>
  returns 130. When \<^verbatim>\<open>sys.version\<close> holds a line feed (as it does on some builds), the
  version line spans two physical lines, and the second one does not have the format.
\<close>

theorem log_line_not_flushed_or_split:
  "valid_datetime noon
   \<and> fst (example_task_main struck_flush_env start) = Inr 130
   \<and> \<not> flushed_lines (added example_task_main struck_flush_env start)
   \<and> successors (Write Stdout (''[2024-03-09 12:00:05] INFO: Python example script starting'' @ newline))
        (added example_task_main struck_flush_env start) = [Some (Raised KeyboardInterrupt)]
   \<and> flushed_lines (added example_task_main two_line_version_env start)
   \<and> ''[GCC 9.4.0]'' \<in> set (split_lines (concat (written Stdout
         (added example_task_main two_line_version_env start))))
   \<and> \<not> is_single_log_line ''[GCC 9.4.0]''
   \<and> \<not> list_all is_single_log_line (split_lines (concat (written Stdout
         (added example_task_main two_line_version_env start))))"
proof -
  have a: "added example_task_main struck_flush_env start =
         [Write Stdout (''[2024-03-09 12:00:05] INFO: Python example script starting'' @ newline),
          Raised KeyboardInterrupt,
          Write Stdout (''[2024-03-09 12:00:05] WARNING: Script interrupted by user'' @ newline),
          Flush Stdout]"
    unfolding added_def main_struck_flush by (simp add: start_def)
  have b: "added example_task_main two_line_version_env start =
         [Write Stdout (''[2024-03-09 12:00:05] INFO: Python example script starting'' @ newline),
          Flush Stdout,
          Write Stdout (''[2024-03-09 12:00:05] INFO: Python version: 3.8.10 (default, Nov 22 2023) ''
                        @ newline @ ''[GCC 9.4.0]'' @ newline),
          Flush Stdout,
          Raised KeyboardInterrupt,
          Write Stdout (''[2024-03-09 12:00:05] WARNING: Script interrupted by user'' @ newline),
          Flush Stdout]"
    unfolding added_def main_two_line_version by (simp add: start_def)
  have v: "\<forall>k. valid_datetime (now two_line_version_env k)"
    by (simp add: two_line_version_env_def quiet_env_def valid_noon)
  have d: "log_discipline (added example_task_main two_line_version_env start)"
    by (rule disciplinedD(1) [OF disciplined_example_task_main [OF v]])
  have 1: "fst (example_task_main struck_flush_env start) = Inr 130"
    by (simp add: main_struck_flush)
  have 2: "\<not> flushed_lines (added example_task_main struck_flush_env start)"
    unfolding a by simp
  have 3: "successors (Write Stdout (''[2024-03-09 12:00:05] INFO: Python example script starting'' @ newline))
        (added example_task_main struck_flush_env start) = [Some (Raised KeyboardInterrupt)]"
    unfolding a by simp
  have 4: "flushed_lines (added example_task_main two_line_version_env start)"
    using d unfolding b by simp
  have l: "split_lines (concat (written Stdout (added example_task_main two_line_version_env start))) =
      [''[2024-03-09 12:00:05] INFO: Python example script starting'',
       ''[2024-03-09 12:00:05] INFO: Python version: 3.8.10 (default, Nov 22 2023) '',
       ''[GCC 9.4.0]'',
       ''[2024-03-09 12:00:05] WARNING: Script interrupted by user'']"
    unfolding b by (simp add: written_def written_ev_def split_lines_def)
  have 6: "\<not> is_single_log_line ''[GCC 9.4.0]''"
    using single_log_line_length [of "''[GCC 9.4.0]''"] by auto
  have 5: "''[GCC 9.4.0]'' \<in> set (split_lines (concat (written Stdout
         (added example_task_main two_line_version_env start))))"
    unfolding l by simp
  have 7: "\<not> list_all is_single_log_line (split_lines (concat (written Stdout
         (added example_task_main two_line_version_env start))))"
    unfolding l using 6 by simp
  show ?thesis using valid_noon 1 2 3 4 5 6 7 by (intro conjI)
qed

text \<open>
  Claim C9, amended. For a clock that returns valid dates, on every control path of the
  task simulator (whatever faults strike, the two handlers included), every write is made
  by \<^verbatim>\<open>log_message\<close>: it goes to standard output, its text reads
  \<^verbatim>\<open>[YYYY-MM-DD HH:MM:SS] LEVEL: message\<close> with the level INFO, WARNING or ERROR and the
  caller's message, and the operation right after it is the flush of standard output,
  which is performed unless an exception is raised at that very operation. The same holds
  of \<^verbatim>\<open>simulate_work\<close> and of the handlers' calls. A call without a level logs at level
  INFO. In a run that meets no fault every line is followed by its flush; and when
  moreover \<^verbatim>\<open>sys.version\<close> holds no line feed, every physical line of the output has the
  format.
\<close>

theorem task_simulator_log_discipline:
  assumes "\<forall>k. valid_datetime (now e k)"
  shows "log_discipline (added example_task_main e s)
    \<and> log_discipline (added (simulate_work duration task_name) e s)
    \<and> log_discipline (added (log_message message ''WARNING'') e s)
    \<and> log_discipline (added (log_message message ''ERROR'') e s)
    \<and> log_message1 message = log_message message ''INFO''
    \<and> (no_faults e s \<longrightarrow>
          added (log_message message level) e s =
            [Write Stdout (''['' @ strftime (now e (tick s)) stamp_format @ ''] '' @ level @ '': ''
                           @ message @ newline), Flush Stdout]
          \<and> (\<forall>x. Raised x \<notin> set (added example_task_main e s))
          \<and> flushed_lines (added example_task_main e s))
    \<and> (no_faults e s \<and> CHR 0x0A \<notin> set (sys_version e) \<longrightarrow>
          list_all is_single_log_line
            (split_lines (concat (written Stdout (added example_task_main e s)))))"
proof -
  have 1: "log_discipline (added example_task_main e s)"
    by (rule disciplinedD(1) [OF disciplined_example_task_main [OF assms]])
  have 2: "log_discipline (added (simulate_work duration task_name) e s)"
    by (rule disciplinedD(1) [OF disciplined_simulate_work [OF assms]])
  have 3: "log_discipline (added (log_message message ''WARNING'') e s)"
    by (rule disciplinedD(1) [OF disciplined_log_message [OF assms]]) simp
  have 4: "log_discipline (added (log_message message ''ERROR'') e s)"
    by (rule disciplinedD(1) [OF disciplined_log_message [OF assms]]) simp
  have 5: "log_message1 message = log_message message ''INFO''"
    by (simp add: log_message1_def)
  have 6: "added (log_message message level) e s =
            [Write Stdout (''['' @ strftime (now e (tick s)) stamp_format @ ''] '' @ level @ '': ''
                           @ message @ newline), Flush Stdout]" if nf: "no_faults e s"
  proof -
    have "fault e (tick s) = None" "fault e (Suc (tick s)) = None" "fault e (Suc (Suc (tick s))) = None"
      using nf by (simp_all add: no_faults_def)
    then show ?thesis by (simp add: added_def log_message_run)
  qed
  have 7: "\<forall>x. Raised x \<notin> set (added example_task_main e s)" if nf: "no_faults e s"
  proof (intro allI notI)
    fix x assume "Raised x \<in> set (added example_task_main e s)"
    then have "Raised x \<in> set (skeleton (added example_task_main e s))"
      by (rule skeleton_keeps_raised)
    then show False
      unfolding skeleton_def emitsD(2) [OF example_task_main_skeleton nf]
      by (auto simp add: tasks_def)
  qed
  have 8: "flushed_lines (added example_task_main e s)" if nf: "no_faults e s"
    using 1 7 [OF nf] by (rule flushed_lines_discipline)
  have 9: "list_all is_single_log_line
            (split_lines (concat (written Stdout (added example_task_main e s))))"
    if "no_faults e s \<and> CHR 0x0A \<notin> set (sys_version e)"
  proof -
    from that have nf: "no_faults e s" and nl: "CHR 0x0A \<notin> set (sys_version e)" by simp_all
    have a: "list_all is_log_line (written Stdout (added example_task_main e s))"
      using written_discipline [OF 1] by (rule conjunct1)
    have "concat (map broken_ev (added example_task_main e s)) = []"
      by (rule emitsD(2) [OF example_task_main_broken [OF nl] nf])
    then have b: "\<forall>w\<in>set (written Stdout (added example_task_main e s)). CHR 0x0A \<notin> set (butlast w)"
      by (rule broken_none)
    show ?thesis using a b by (rule single_lines)
  qed
  show ?thesis
    apply (intro conjI)
          apply (rule 1)
         apply (rule 2)
        apply (rule 3)
       apply (rule 4)
      apply (rule 5)
     apply (rule impI, intro conjI)
       apply (erule 6)
      apply (erule 7)
     apply (erule 8)
    apply (rule impI, erule 9)
    done
qed

theorem task_simulator_log_discipline_witness:
  "(\<forall>k. valid_datetime (now interrupted_env k))
   \<and> log_discipline (added example_task_main interrupted_env start)
   \<and> log_discipline (added example_task_main struck_flush_env start)
   \<and> no_faults quiet_env start
   \<and> CHR 0x0A \<notin> set (sys_version quiet_env)
   \<and> flushed_lines (added example_task_main quiet_env start)
   \<and> list_all is_single_log_line
        (split_lines (concat (written Stdout (added example_task_main quiet_env start))))
   \<and> added (log_message ''disk full'' ''ERROR'') quiet_env start =
       [Write Stdout (''[2024-03-09 12:00:05] ERROR: disk full'' @ newline), Flush Stdout]"
proof -
  have v: "\<forall>k. valid_datetime (now interrupted_env k)"
    by (simp add: interrupted_env_def quiet_env_def valid_noon)
  have u: "\<forall>k. valid_datetime (now struck_flush_env k)"
    by (simp add: struck_flush_env_def quiet_env_def valid_noon)
  have nl: "CHR 0x0A \<notin> set (sys_version quiet_env)" by (simp add: quiet_env_def)
  note i = task_simulator_log_discipline [OF v, of start, THEN conjunct1]
  note j = task_simulator_log_discipline [OF u, of start, THEN conjunct1]
  note q = task_simulator_log_discipline [OF valid_quiet, of start 0 "[]" "''disk full''" "''ERROR''"]
  have 1: "flushed_lines (added example_task_main quiet_env start)"
    using q no_faults_quiet by blast
  have 2: "list_all is_single_log_line
        (split_lines (concat (written Stdout (added example_task_main quiet_env start))))"
    using q no_faults_quiet nl by blast
  have "added (log_message ''disk full'' ''ERROR'') quiet_env start =
       [Write Stdout (''['' @ strftime (now quiet_env (tick start)) stamp_format @ ''] '' @ ''ERROR'' @ '': ''
                           @ ''disk full'' @ newline), Flush Stdout]"
    using q no_faults_quiet by blast
  then have 3: "added (log_message ''disk full'' ''ERROR'') quiet_env start =
       [Write Stdout (''[2024-03-09 12:00:05] ERROR: disk full'' @ newline), Flush Stdout]"
    by (simp add: quiet_env_def strftime_noon)
  show ?thesis using v i j no_faults_quiet nl 1 2 3 by (intro conjI)
qed

subsection \<open>Exit codes\<close>






section \<open>Two runs of one script\<close>

text \<open>
  Claim C3. Take two runs that meet no fault, in any two environments (clocks, random
  draws, process ids and start states may differ). The color probe's output is the same
  in both, event for event. The task simulator's output is the same in both once the
  timestamps and the warning lines (with the flushes) are left out, provided both runs
  see the same \<^verbatim>\<open>sys.version\<close>; these are the two scripts of the claim. In any case the
  shape of that output (the events with the written texts blanked) is the same. The demo
  output generator's traces have the same shape, and are equal when the script path and
  the process id are.
\<close>

theorem rerun_determinism:
  assumes "no_faults e1 s1" and "no_faults e2 s2"
  shows "added test_colors_main e1 s1 = added test_colors_main e2 s2
    \<and> (sys_version e1 = sys_version e2 \<longrightarrow>
         skeleton (added example_task_main e1 s1) = skeleton (added example_task_main e2 s2))
    \<and> map shape (skeleton (added example_task_main e1 s1)) =
        map shape (skeleton (added example_task_main e2 s2))
    \<and> map shape (added demo_output_main e1 s1) = map shape (added demo_output_main e2 s2)
    \<and> (script_file e1 = script_file e2 \<and> pid e1 = pid e2 \<longrightarrow>
         added demo_output_main e1 s1 = added demo_output_main e2 s2)"
proof -
  have 1: "added test_colors_main e1 s1 = added test_colors_main e2 s2"
    unfolding emits_exactD [OF test_colors_emits assms(1)] emits_exactD [OF test_colors_emits assms(2)]
    by (rule refl)
  note t1 = emitsD(2) [OF example_task_main_skeleton assms(1), folded skeleton_def]
  note t2 = emitsD(2) [OF example_task_main_skeleton assms(2), folded skeleton_def]
  have 2: "skeleton (added example_task_main e1 s1) = skeleton (added example_task_main e2 s2)"
    if "sys_version e1 = sys_version e2"
    unfolding t1 t2 using that by simp
  have 3: "map shape (skeleton (added example_task_main e1 s1)) =
        map shape (skeleton (added example_task_main e2 s2))"
    unfolding t1 t2 by (simp add: shape_def)
  note d1 = emits_exactD [OF demo_output_emits assms(1)]
  note d2 = emits_exactD [OF demo_output_emits assms(2)]
  have 4: "map shape (added demo_output_main e1 s1) = map shape (added demo_output_main e2 s2)"
    unfolding d1 d2 by (simp add: shape_def)
  have 5: "added demo_output_main e1 s1 = added demo_output_main e2 s2"
    if "script_file e1 = script_file e2 \<and> pid e1 = pid e2"
    unfolding d1 d2 using that by simp
  show ?thesis using 1 2 3 4 5 by blast
qed

theorem rerun_determinism_witness:
  "no_faults quiet_env start \<and> no_faults other_env start
   \<and> now quiet_env 0 \<noteq> now other_env 0 \<and> rnd quiet_env 2 \<noteq> rnd other_env 2
   \<and> pid quiet_env \<noteq> pid other_env
   \<and> sys_version quiet_env = sys_version other_env
   \<and> added test_colors_main quiet_env start = added test_colors_main other_env start
   \<and> skeleton (added example_task_main quiet_env start) = skeleton (added example_task_main other_env start)
   \<and> map shape (added demo_output_main quiet_env start) = map shape (added demo_output_main other_env start)
   \<and> added demo_output_main quiet_env start ! 2 = Write Stdout (''PID: 4242'' @ newline)
   \<and> added demo_output_main other_env start ! 2 = Write Stdout (''PID: 777'' @ newline)"
proof -
  note w = rerun_determinism [OF no_faults_quiet no_faults_other]
  have 5: "added demo_output_main quiet_env start ! 2 = Write Stdout (''PID: 4242'' @ newline)"
    unfolding emits_exactD [OF demo_output_emits no_faults_quiet]
    by (simp add: quiet_env_def str_eval)
  have 6: "added demo_output_main other_env start ! 2 = Write Stdout (''PID: 777'' @ newline)"
    unfolding emits_exactD [OF demo_output_emits no_faults_other]
    by (simp add: other_env_def quiet_env_def str_eval)
  have v: "sys_version quiet_env = sys_version other_env" by (simp add: other_env_def)
  have 1: "added test_colors_main quiet_env start = added test_colors_main other_env start"
    using w by (rule conjunct1)
  have 2: "skeleton (added example_task_main quiet_env start) = skeleton (added example_task_main other_env start)"
    using w v by blast
  have 3: "map shape (added demo_output_main quiet_env start) = map shape (added demo_output_main other_env start)"
    using w by blast
  have 4: "now quiet_env 0 \<noteq> now other_env 0" "rnd quiet_env 2 \<noteq> rnd other_env 2"
    "pid quiet_env \<noteq> pid other_env"
    by (simp_all add: other_env_def quiet_env_def noon_def)
  show ?thesis using no_faults_quiet no_faults_other 4 v 1 2 3 5 6 by (intro conjI)
qed

end
